theory Spec2Isabelle
  imports Main
begin

section \<open>Python strings\<close>

text \<open>
  A Python \<open>str\<close> is a sequence of Unicode code points. The page separator of the
  source is the en-dash U+2013, which no 8-bit \<open>char\<close> holds, so a string is modelled as
  the list of its code points. \<open>py\<close> embeds an ASCII literal of the source.
\<close>

type_synonym pystr = "int list"

definition py :: "string \<Rightarrow> pystr" where
  "py s = map of_char s"

definition nl :: pystr where
  "nl = [10]"

definition dq :: pystr where
  "dq = [34]"

definition comma :: int where
  "comma = 44"

definition endash :: int where
  "endash = 8211"

text \<open>
  \<open>str.isspace\<close> for one code point, as CPython's \<open>_PyUnicode_IsWhitespace\<close> lists
  them: U+0009..U+000D, U+001C..U+0020, U+0085, U+00A0, U+1680, U+2000..U+200A, U+2028,
  U+2029, U+202F, U+205F, U+3000.
\<close>

definition isspace :: "int \<Rightarrow> bool" where
  "isspace c = ((9 \<le> c \<and> c \<le> 13) \<or> (28 \<le> c \<and> c \<le> 32) \<or> c = 133 \<or> c = 160
     \<or> c = 5760 \<or> (8192 \<le> c \<and> c \<le> 8202) \<or> c = 8232 \<or> c = 8233 \<or> c = 8239
     \<or> c = 8287 \<or> c = 12288)"

text \<open>\<open>s.strip()\<close>: leading and trailing whitespace removed.\<close>

definition strip :: "pystr \<Rightarrow> pystr" where
  "strip s = rev (dropWhile isspace (rev (dropWhile isspace s)))"

text \<open>
  \<open>s.split(sep)\<close> for a separator: a left-to-right scan for non-overlapping occurrences;
  \<open>cur\<close> is the piece read so far. The source only passes the non-empty literals
  \<open>' and '\<close>, \<open>','\<close> and the en-dash.
\<close>

function split_sep :: "pystr \<Rightarrow> pystr \<Rightarrow> pystr \<Rightarrow> pystr list" where
  "split_sep sep cur [] = [cur]"
| "split_sep sep cur (c # cs) =
     (if take (length sep) (c # cs) = sep
      then cur # split_sep sep [] (drop (length sep - 1) cs)
      else split_sep sep (cur @ [c]) cs)"
  by pat_completeness auto
termination
  by (relation "measure (\<lambda>(sep, cur, s). length s)") auto

definition py_split :: "pystr \<Rightarrow> pystr \<Rightarrow> pystr list" where
  "py_split sep s = split_sep sep [] s"

text \<open>
  \<open>s.split()\<close> with no argument: pass whitespace, take the run of non-whitespace that
  follows as a piece, and go on; no piece is empty.
\<close>

function py_split_ws :: "pystr \<Rightarrow> pystr list" where
  "py_split_ws s =
     (if dropWhile isspace s = [] then []
      else takeWhile (\<lambda>x. \<not> isspace x) (dropWhile isspace s)
           # py_split_ws (dropWhile (\<lambda>x. \<not> isspace x) (dropWhile isspace s)))"
  by pat_completeness auto
termination
proof (relation "measure length", goal_cases)
  case 1
  show ?case by simp
next
  case (2 s)
  then obtain c cs where ccs: "dropWhile isspace s = c # cs"
    by (cases "dropWhile isspace s") auto
  have "\<not> isspace c"
    using hd_dropWhile [of isspace s] ccs by simp
  then have "length (dropWhile (\<lambda>x. \<not> isspace x) (c # cs)) \<le> length cs"
    by (simp add: length_dropWhile_le)
  moreover have "length (c # cs) \<le> length s"
    using length_dropWhile_le [of isspace s] ccs by simp
  ultimately show ?case using ccs by simp
qed

declare py_split_ws.simps [simp del]

text \<open>\<open>str(n)\<close> for an integer: its decimal digits, with a minus sign when negative.\<close>

function str_digits :: "int \<Rightarrow> pystr" where
  "str_digits n = (if n < 10 then [48 + n] else str_digits (n div 10) @ [48 + n mod 10])"
  by pat_completeness auto
termination
  by (relation "measure nat") auto

declare str_digits.simps [simp del]

definition str_int :: "int \<Rightarrow> pystr" where
  "str_int i = (if i < 0 then 45 # str_digits (- i) else str_digits i)"

text \<open>
  \<open>s.zfill(width)\<close>: zeros on the left up to \<open>width\<close>, put after a leading sign.
\<close>

definition zfill :: "nat \<Rightarrow> pystr \<Rightarrow> pystr" where
  "zfill width s =
     (if width \<le> length s then s
      else (case s of
              [] \<Rightarrow> replicate width 48
            | c # cs \<Rightarrow>
                if c = 43 \<or> c = 45 then c # replicate (width - length s) 48 @ cs
                else replicate (width - length s) 48 @ s))"

text \<open>
  \<open>int(s)\<close> in base 10, following CPython: a non-ASCII whitespace code point counts as a
  space; then optional ASCII whitespace (9..13 and 32), an optional sign, decimal digits
  with single underscores allowed between two digits, optional ASCII whitespace, and the
  end of the string. \<open>None\<close> is the \<open>ValueError\<close>. Two things of CPython are outside the
  model: decimal digits beyond ASCII (here not parseable) and the interpreter's limit on
  the number of digits.
\<close>

definition int_space :: "int \<Rightarrow> bool" where
  "int_space c = ((9 \<le> c \<and> c \<le> 13) \<or> c = 32)"

definition is_digit :: "int \<Rightarrow> bool" where
  "is_digit c = (48 \<le> c \<and> c \<le> 57)"

definition to_ascii_space :: "int \<Rightarrow> int" where
  "to_ascii_space c = (if 127 \<le> c \<and> isspace c then 32 else c)"

fun underscores_ok :: "pystr \<Rightarrow> bool" where
  "underscores_ok [] = False"
| "underscores_ok [c] = is_digit c"
| "underscores_ok (c # d # cs) =
     (if is_digit c then underscores_ok (d # cs)
      else is_digit d \<and> underscores_ok (d # cs))"

definition digits_value :: "pystr \<Rightarrow> int" where
  "digits_value ds = foldl (\<lambda>acc c. 10 * acc + (c - 48)) 0 (filter is_digit ds)"

definition py_int :: "pystr \<Rightarrow> int option" where
  "py_int s =
     (let t = dropWhile int_space (map to_ascii_space s);
          neg = (case t of [] \<Rightarrow> False | c # cs \<Rightarrow> c = 45);
          u = (case t of [] \<Rightarrow> [] | c # cs \<Rightarrow> if c = 43 \<or> c = 45 then cs else t);
          body = takeWhile (\<lambda>c. is_digit c \<or> c = 95) u;
          rest = dropWhile (\<lambda>c. is_digit c \<or> c = 95) u
      in if (case body of [] \<Rightarrow> False | c # cs \<Rightarrow> is_digit c) \<and> underscores_ok body
            \<and> dropWhile int_space rest = []
         then Some (if neg then - digits_value body else digits_value body)
         else None)"

section \<open>Data model\<close>

text \<open>
  The values the source stores in \<open>info_dict\<close>: strings (the copied fields and the
  derived ones), integers (\<open>start\<close>, \<open>end\<close>, \<open>n_authors\<close>) and \<open>None\<close> (the \<open>author\<close>
  slot of an entry without authors).
\<close>

datatype pyval = PStr pystr | PInt int | PNone

text \<open>What \<open>str(v)\<close>, and so an f-string field \<open>{v}\<close>, gives for such a value.\<close>

fun py_str :: "pyval \<Rightarrow> pystr" where
  "py_str (PStr s) = s"
| "py_str (PInt i) = str_int i"
| "py_str PNone = py ''None''"

text \<open>
  The exceptions the source can raise: a failed \<open>assert\<close> with its message (empty when
  the assertion has none), a missing dictionary key, \<open>int()\<close> on a string that is no
  integer, a method of \<open>str\<close> called on a value that is none, and a local variable read
  before assignment.
\<close>

datatype error =
    AssertionError pystr
  | KeyError pyval
  | ValueError pystr
  | AttributeError
  | UnboundLocalError string

text \<open>
  An entry as the external parser hands it over: the type tag and the decoded fields.
  Field names are only ever compared with ASCII literals of the source.
\<close>

record entry =
  entry_type :: pystr
  fields_dict :: "string \<rightharpoonup> pystr"

text \<open>One value of \<open>author_dict\<close>; \<open>orcid\<close> is a key the renderer looks for.\<close>

record author =
  full_name :: pystr
  first_name :: pystr
  last_name :: pystr
  orcid :: "pystr option"

text \<open>
  The object \<open>Citation\<close>. The entry \<open>info_dict['author_dict']\<close>, the only one whose value
  is a dictionary (keyed \<open>0 .. n - 1\<close> in insertion order, so a list), is kept in a field
  of its own: \<open>None\<close> is the key being absent.
\<close>

record citation =
  info_dict :: "string \<rightharpoonup> pyval"
  author_dict :: "author list option"
  bibtex_provided :: bool
  repo_provided :: bool

text \<open>The calendar part of a reading of \<open>datetime.now()\<close>.\<close>

record datetime =
  dt_year :: int
  dt_month :: int
  dt_day :: int

section \<open>parse\_bibtex\<close>

definition allow_list :: "string list" where
  "allow_list = [''title'', ''booktitle'', ''pages'', ''year'', ''month'', ''day'',
     ''journal'', ''volume'', ''series'', ''issue'', ''editor'', ''publisher'', ''url'',
     ''doi'', ''abstract'']"

definition copy_fields :: "entry \<Rightarrow> (string \<rightharpoonup> pyval) \<Rightarrow> (string \<rightharpoonup> pyval)" where
  "copy_fields bib_info d =
     fold (\<lambda>key d'. case fields_dict bib_info key of
                       Some v \<Rightarrow> d'(key \<mapsto> PStr v)
                     | None \<Rightarrow> d') allow_list d"

text \<open>Lines 33 to 42: the page range.\<close>

definition parse_pages :: "(string \<rightharpoonup> pyval) \<Rightarrow> error + (string \<rightharpoonup> pyval)" where
  "parse_pages d =
     (case d ''pages'' of
        None \<Rightarrow> Inr d
      | Some (PStr p) \<Rightarrow>
          (let split_pages = py_split [endash] p in
           if length split_pages = 2 then
             (case py_int (split_pages ! 0) of
                None \<Rightarrow> Inl (ValueError (split_pages ! 0))
              | Some a \<Rightarrow>
                  (case py_int (split_pages ! 1) of
                     None \<Rightarrow> Inl (ValueError (split_pages ! 1))
                   | Some b \<Rightarrow> Inr (d(''start'' \<mapsto> PInt a, ''end'' \<mapsto> PInt b))))
           else if length split_pages = 1 then Inr (d(''start'' \<mapsto> PStr (split_pages ! 0)))
           else Inl (AssertionError (py ''pages does not have expected format'')))
      | Some _ \<Rightarrow> Inl AttributeError)"

text \<open>Lines 50 to 60: one author name.\<close>

definition parse_author :: "pystr \<Rightarrow> error + author" where
  "parse_author author_name =
     (if comma \<in> set author_name then
        (if length (py_split [comma] author_name) = 2 then
           Inr \<lparr>full_name = strip author_name,
                first_name = strip (py_split [comma] author_name ! 1),
                last_name = strip (py_split [comma] author_name ! 0),
                orcid = None\<rparr>
         else Inl (AssertionError (py ''More than 1 comma (,) in '' @ author_name)))
      else
        (if length (py_split_ws author_name) = 2 then
           Inr \<lparr>full_name = strip author_name,
                first_name = strip (py_split_ws author_name ! 0),
                last_name = strip (py_split_ws author_name ! 1),
                orcid = None\<rparr>
         else Inl (AssertionError (py ''More than two names '' @ author_name))))"

text \<open>The loop of line 49 over the names, stopping at the first failed assertion.\<close>

fun parse_authors :: "pystr list \<Rightarrow> error + author list" where
  "parse_authors [] = Inr []"
| "parse_authors (author_name # rest) =
     (case parse_author author_name of
        Inl e \<Rightarrow> Inl e
      | Inr a \<Rightarrow>
          (case parse_authors rest of
             Inl e \<Rightarrow> Inl e
           | Inr as \<Rightarrow> Inr (a # as)))"

text \<open>
  \<open>parse_bibtex\<close> from line 22 on, given the entries of the library that the external
  parser returned for the input string. The assertion of line 24 on the type of the entry
  holds of every value of type \<open>entry\<close>. An exception leaves no object behind, since it
  ends the constructor.
\<close>

definition parse_bibtex :: "entry list \<Rightarrow> citation \<Rightarrow> error + citation" where
  "parse_bibtex entries self =
     (case entries of
        [bib_info] \<Rightarrow>
          (case parse_pages
                  (copy_fields bib_info
                     ((info_dict self)(''ENTRYTYPE'' \<mapsto> PStr (entry_type bib_info)))) of
             Inl e \<Rightarrow> Inl e
           | Inr d \<Rightarrow>
               (case fields_dict bib_info ''author'' of
                  Some a \<Rightarrow>
                    (let author_list = py_split (py '' and '') a in
                     case parse_authors author_list of
                       Inl e \<Rightarrow> Inl e
                     | Inr ad \<Rightarrow>
                         Inr (self\<lparr>info_dict :=
                                      d(''n_authors'' \<mapsto> PInt (int (length author_list))),
                                    author_dict := Some ad,
                                    bibtex_provided := True\<rparr>))
                | None \<Rightarrow>
                    Inr (self\<lparr>info_dict := d(''author'' \<mapsto> PNone),
                               bibtex_provided := True\<rparr>)))
      | _ \<Rightarrow> Inl (AssertionError
                  (py ''more than 1 entries in bib tex file, give ind or something'')))"

text \<open>The constructor \<open>Citation(bibtex_string)\<close>.\<close>

definition Citation :: "entry list \<Rightarrow> error + citation" where
  "Citation entries =
     parse_bibtex entries
       \<lparr>info_dict = Map.empty, author_dict = None,
        bibtex_provided = False, repo_provided = False\<rparr>"

section \<open>prep\_info\_for\_export\<close>

text \<open>
  The local variables of the date loop (lines 74 to 103): the two flags, the three parts
  of the date (\<open>None\<close> while unassigned) and the dictionary being updated.
\<close>

record date_locals =
  find_date :: bool
  construct_date :: bool
  year :: "pyval option"
  month :: "pyval option"
  day :: "pyval option"
  dict :: "string \<rightharpoonup> pyval"

text \<open>One run of the loop body, lines 77 to 103, with \<open>dt\<close> the clock reading of line 84.\<close>

definition date_body :: "datetime \<Rightarrow> date_locals \<Rightarrow> date_locals" where
  "date_body dt s =
     (let s1 = (if dict s ''date-released'' \<noteq> None then s\<lparr>find_date := False\<rparr>
                else if dict s ''date'' \<noteq> None
                then s\<lparr>dict := (dict s)(''date-released'' := dict s ''date''),
                       find_date := False\<rparr>
                else s);
          s2 = s1\<lparr>construct_date := True\<rparr>;
          s3 = (case dict s2 ''year'' of
                  Some y \<Rightarrow> s2\<lparr>year := Some y\<rparr>
                | None \<Rightarrow> s2\<lparr>year := Some (PInt (dt_year dt)),
                              month := Some (PInt (dt_month dt)),
                              day := Some (PInt (dt_day dt)),
                              find_date := False\<rparr>);
          s4 = (case dict s3 ''month'' of
                  Some m \<Rightarrow> s3\<lparr>month := Some m\<rparr>
                | None \<Rightarrow> s3\<lparr>month := Some (PInt 1), day := Some (PInt 1),
                              find_date := False\<rparr>)
      in (case dict s4 ''day'' of
            Some d \<Rightarrow> s4\<lparr>day := Some d, find_date := False\<rparr>
          | None \<Rightarrow> s4\<lparr>day := Some (PInt 1), find_date := False\<rparr>))"

text \<open>The loop \<open>while find_date\<close> of line 76.\<close>

function date_while :: "datetime \<Rightarrow> date_locals \<Rightarrow> date_locals" where
  "date_while dt s = (if find_date s then date_while dt (date_body dt s) else s)"
  by pat_completeness auto
termination
  by (relation "measure (\<lambda>(dt, s). if find_date s then 1 else 0)")
     (auto simp: date_body_def Let_def split: option.splits)

declare date_while.simps [simp del]

text \<open>
  Lines 74 to 107: the loop from its initial flags, then the f-string of line 107, which
  reads \<open>year\<close>, \<open>month\<close> and \<open>day\<close> in this order.
\<close>

definition prep_date :: "datetime \<Rightarrow> (string \<rightharpoonup> pyval) \<Rightarrow> error + (string \<rightharpoonup> pyval)" where
  "prep_date dt d =
     (let s = date_while dt \<lparr>find_date = True, construct_date = False, year = None,
                              month = None, day = None, dict = d\<rparr>
      in if construct_date s then
           (case year s of
              None \<Rightarrow> Inl (UnboundLocalError ''year'')
            | Some y \<Rightarrow>
                (case month s of
                   None \<Rightarrow> Inl (UnboundLocalError ''month'')
                 | Some m \<Rightarrow>
                     (case day s of
                        None \<Rightarrow> Inl (UnboundLocalError ''day'')
                      | Some d' \<Rightarrow>
                          Inr ((dict s)(''date-released'' \<mapsto>
                                 PStr (py_str y @ py ''-'' @ zfill 2 (py_str m)
                                       @ py ''-'' @ zfill 2 (py_str d')))))))
         else Inr (dict s))"

text \<open>Lines 110 to 115: the table and its subscript, whose failure is a \<open>KeyError\<close>.\<close>

definition type_mapping_bib_to_cff :: "(pystr \<times> pystr) list" where
  "type_mapping_bib_to_cff =
     [(py ''article'', py ''article''), (py ''book'', py ''book''),
      (py ''booklet'', py ''pamphlet''), (py ''inproceedings'', py ''conference-paper''),
      (py ''proceedings'', py ''proceedings''), (py ''misc'', py ''generic''),
      (py ''manual'', py ''manual''), (py ''software'', py ''software''),
      (py ''techreport'', py ''report''), (py ''unpublished'', py ''unpublished'')]"

definition prep_type :: "(string \<rightharpoonup> pyval) \<Rightarrow> error + (string \<rightharpoonup> pyval)" where
  "prep_type d =
     (case d ''ENTRYTYPE'' of
        None \<Rightarrow> Inr d
      | Some (PStr t) \<Rightarrow>
          (case map_of type_mapping_bib_to_cff t of
             Some c \<Rightarrow> Inr (d(''cff_type'' \<mapsto> PStr c))
           | None \<Rightarrow> Inl (KeyError (PStr t)))
      | Some v \<Rightarrow> Inl (KeyError v))"

text \<open>Lines 118 to 120.\<close>

definition prep_journal :: "(string \<rightharpoonup> pyval) \<Rightarrow> (string \<rightharpoonup> pyval)" where
  "prep_journal d =
     (if d ''journal'' = None then
        (case d ''series'' of Some v \<Rightarrow> d(''journal'' \<mapsto> v) | None \<Rightarrow> d)
      else d)"

text \<open>Lines 123 to 126.\<close>

definition prep_conference :: "(string \<rightharpoonup> pyval) \<Rightarrow> (string \<rightharpoonup> pyval)" where
  "prep_conference d =
     (if d ''cff_type'' = Some (PStr (py ''conference-paper'')) then
        (case d ''booktitle'' of
           Some v \<Rightarrow> if d ''conference'' = None then d(''conference'' \<mapsto> v) else d
         | None \<Rightarrow> d)
      else d)"

definition prep_info_for_export :: "datetime \<Rightarrow> citation \<Rightarrow> error + citation" where
  "prep_info_for_export dt self =
     (if \<not> bibtex_provided self then
        Inl (AssertionError (py ''bibtex file not yet provided''))
      else
        (case prep_date dt (info_dict self) of
           Inl e \<Rightarrow> Inl e
         | Inr d1 \<Rightarrow>
             (case prep_type d1 of
                Inl e \<Rightarrow> Inl e
              | Inr d2 \<Rightarrow> Inr (self\<lparr>info_dict := prep_conference (prep_journal d2)\<rparr>))))"

section \<open>Serialisation\<close>

text \<open>
  The source writes to standard output as it goes. What a run leaves behind is the list
  of the strings handed to \<open>f.write\<close> so far, and the exception that ended it, if any.
\<close>

type_synonym outcome = "pystr list \<times> error option"

text \<open>Statements in sequence: the first exception ends the run and keeps what was written.\<close>

fun run :: "(pystr list \<Rightarrow> outcome) list \<Rightarrow> pystr list \<Rightarrow> outcome" where
  "run [] out = (out, None)"
| "run (stmt # stmts) out =
     (case stmt out of
        (out', None) \<Rightarrow> run stmts out'
      | (out', Some e) \<Rightarrow> (out', Some e))"

definition pass :: "pystr list \<Rightarrow> outcome" where
  "pass out = (out, None)"

definition f_write :: "pystr \<Rightarrow> pystr list \<Rightarrow> outcome" where
  "f_write s out = (out @ [s], None)"

text \<open>
  \<open>f.write(f'<pre>{self.info_dict[key]}<post>')\<close>: the subscript is evaluated before
  anything is written.
\<close>

definition write_item :: "(string \<rightharpoonup> pyval) \<Rightarrow> pystr \<Rightarrow> string \<Rightarrow> pystr \<Rightarrow> pystr list \<Rightarrow> outcome" where
  "write_item d pre key post out =
     (case d key of
        None \<Rightarrow> (out, Some (KeyError (PStr (py key))))
      | Some v \<Rightarrow> f_write (pre @ py_str v @ post) out)"

text \<open>Lines 141 to 145: the lines of one author.\<close>

definition author_lines :: "pystr \<Rightarrow> author \<Rightarrow> pystr list" where
  "author_lines ind a =
     [ind @ py ''  - family-names: '' @ dq @ last_name a @ dq @ nl,
      ind @ py ''    given-names: '' @ dq @ first_name a @ dq @ nl]
     @ (case orcid a of
          Some v \<Rightarrow> [ind @ py ''    orcid: '' @ dq @ v @ dq @ nl]
        | None \<Rightarrow> [])"

definition add_author_names_to_cff :: "citation \<Rightarrow> int \<Rightarrow> pystr list \<Rightarrow> outcome" where
  "add_author_names_to_cff self indent_n_spaces out =
     (if \<not> 0 \<le> indent_n_spaces then (out, Some (AssertionError []))
      else
        (case author_dict self of
           None \<Rightarrow> (out, Some (AssertionError []))
         | Some ad \<Rightarrow>
             (case info_dict self ''n_authors'' of
                None \<Rightarrow> (out, Some (KeyError (PStr (py ''n_authors''))))
              | Some n \<Rightarrow>
                  if n \<noteq> PInt (int (length ad)) then (out, Some (AssertionError []))
                  else if \<not> 0 < length ad then (out, Some (AssertionError []))
                  else
                    (out @ [replicate (nat indent_n_spaces) 32 @ py ''authors:'' @ nl]
                         @ concat (map (author_lines (replicate (nat indent_n_spaces) 32)) ad),
                     None))))"

definition citation_keys :: "string list" where
  "citation_keys = [''doi'', ''url'', ''date-released'', ''issue'', ''volume'', ''journal'',
     ''title'', ''booktitle'', ''editor'', ''series'', ''publisher'', ''start'', ''end'']"

text \<open>
  Lines 153 to 182, on the object that \<open>prep_info_for_export\<close> left. The assertion of
  line 149 holds of every \<open>cff_version\<close> of type \<open>pystr\<close>.
\<close>

definition emit :: "pystr \<Rightarrow> citation \<Rightarrow> (pystr list \<Rightarrow> outcome) list" where
  "emit cff_version self =
     (let d = info_dict self in
      [write_item d (py ''date-released: '' @ dq) ''date-released'' (dq @ nl),
       (if d ''doi'' \<noteq> None then write_item d (py ''doi: '' @ dq) ''doi'' (dq @ nl)
        else if d ''repo_doi'' \<noteq> None
        then write_item d (py ''doi: '' @ dq) ''repo_doi'' (dq @ nl)
        else pass),
       write_item d (py ''title: '' @ dq) ''title'' (dq @ nl),
       f_write (py ''cff-version: '' @ dq @ cff_version @ dq @ nl),
       (if d ''repo_version'' \<noteq> None
        then write_item d (py ''version: '' @ dq) ''repo_version'' (dq @ nl)
        else pass),
       add_author_names_to_cff self 0,
       f_write (py ''preferred-citation:'' @ nl),
       (if d ''cff_type'' \<noteq> None
        then write_item d (py ''  type: '' @ dq) ''cff_type'' (dq @ nl)
        else f_write (py ''  type: '' @ dq @ py ''generic'' @ dq @ nl)),
       (if d ''publisher'' \<noteq> None
        then run [f_write (py ''  publisher:'' @ nl),
                  write_item d (py ''    name: '' @ dq) ''publisher'' (dq @ nl)]
        else pass),
       (if d ''conference'' \<noteq> None
        then run [f_write (py ''  conference:'' @ nl),
                  write_item d (py ''    name: '' @ dq) ''conference'' (dq @ nl)]
        else pass)]
      @ map (\<lambda>key. if d key \<noteq> None
                    then write_item d (py ''  '' @ py key @ py '': '' @ dq) key (dq @ nl)
                    else pass) citation_keys
      @ [add_author_names_to_cff self 2])"

definition export_as_cff :: "datetime \<Rightarrow> pystr \<Rightarrow> citation \<Rightarrow> outcome" where
  "export_as_cff dt cff_version self =
     (case prep_info_for_export dt self of
        Inl e \<Rightarrow> ([], Some e)
      | Inr self' \<Rightarrow> run (emit cff_version self') [])"

text \<open>
  \<open>process\<close>, lines 184 to 188, from the entries the external parser found in the input,
  with the default version string of \<open>export_as_cff\<close>.
\<close>

definition process :: "datetime \<Rightarrow> entry list \<Rightarrow> outcome" where
  "process dt entries =
     (case Citation entries of
        Inl e \<Rightarrow> ([], Some e)
      | Inr citation \<Rightarrow> export_as_cff dt (py ''1.2.0'') citation)"

section \<open>The date loop\<close>

text \<open>
  Every path through the loop body clears \<open>find_date\<close>, so the loop runs its body once;
  and the body sets \<open>construct_date\<close> on every path, so line 107 always overwrites
  \<open>date-released\<close> with the date built from \<open>year\<close>, \<open>month\<close> and \<open>day\<close>.
\<close>

lemma date_body_clears_flag: "find_date (date_body dt s) = False"
  by (simp add: date_body_def Let_def split: option.splits)

lemma date_while_once: "find_date s \<Longrightarrow> date_while dt s = date_body dt s"
  by (simp add: date_while.simps [of dt s] date_while.simps [of dt "date_body dt s"]
        date_body_clears_flag)

lemma prep_date_eq:
  "prep_date dt d =
     Inr (d(''date-released'' \<mapsto>
            PStr (py_str (case d ''year'' of Some y \<Rightarrow> y | None \<Rightarrow> PInt (dt_year dt))
                  @ py ''-''
                  @ zfill 2 (py_str (case d ''month'' of Some m \<Rightarrow> m | None \<Rightarrow> PInt 1))
                  @ py ''-''
                  @ zfill 2 (py_str (case d ''day'' of Some v \<Rightarrow> v | None \<Rightarrow> PInt 1)))))"
proof -
  have keys: "''date-released'' \<noteq> ''year''" "''date-released'' \<noteq> ''month''"
    "''date-released'' \<noteq> ''day''"
    by simp_all
  show ?thesis
    by (cases "d ''year''"; cases "d ''month''"; cases "d ''day''";
        cases "d ''date-released''"; cases "d ''date''")
       (simp_all add: prep_date_def date_while_once date_body_def Let_def keys
          del: list.inject char.inject)
qed


text \<open>
  Claim C1 says that a \<open>date\<close> field is adopted verbatim as \<open>date-released\<close> and that the
  date built from the parts is then not used. The code, on 4 November 2026: a model that
  holds \<open>date = 2019-05-03\<close> gets \<open>date-released = 2026-01-01\<close>, since line 107 overwrites
  what line 80 stored; and the \<open>date\<close> field of an entry never reaches the model, since
  the list of line 28 does not name it, so the first line written is the built date.
\<close>

theorem date_field_not_adopted:
  "(case prep_info_for_export \<lparr>dt_year = 2026, dt_month = 11, dt_day = 4\<rparr>
           \<lparr>info_dict = [''ENTRYTYPE'' \<mapsto> PStr (py ''article''),
                         ''date'' \<mapsto> PStr (py ''2019-05-03'')],
            author_dict = None, bibtex_provided = True, repo_provided = False\<rparr> of
      Inl e \<Rightarrow> None
    | Inr self' \<Rightarrow> info_dict self' ''date-released'') = Some (PStr (py ''2026-01-01''))
   \<and> (case Citation [\<lparr>entry_type = py ''article'',
                       fields_dict = [''title'' \<mapsto> py ''T'', ''author'' \<mapsto> py ''Jane Doe'',
                                      ''date'' \<mapsto> py ''2019-05-03'']\<rparr>] of
        Inl e \<Rightarrow> None
      | Inr self \<Rightarrow> info_dict self ''date'') = None
   \<and> hd (fst (process \<lparr>dt_year = 2026, dt_month = 11, dt_day = 4\<rparr>
                [\<lparr>entry_type = py ''article'',
                  fields_dict = [''title'' \<mapsto> py ''T'', ''author'' \<mapsto> py ''Jane Doe'',
                                 ''date'' \<mapsto> py ''2019-05-03'']\<rparr>]))
       = py ''date-released: '' @ dq @ py ''2026-01-01'' @ dq @ nl"
  by code_simp

text \<open>
  Claim C2 says that an entry with no date fields gets today's full date. The code, on
  4 November 2026, for an entry with a title and an author only: the conversion succeeds
  and its first line is \<open>date-released: "2026-01-01"\<close>; the month and day of line 89 and
  90 are replaced by \<open>1\<close> at lines 95, 96 and 102.
\<close>

theorem no_date_fields_first_of_january:
  "hd (fst (process \<lparr>dt_year = 2026, dt_month = 11, dt_day = 4\<rparr>
              [\<lparr>entry_type = py ''article'',
                fields_dict = [''title'' \<mapsto> py ''T'', ''author'' \<mapsto> py ''Jane Doe'']\<rparr>]))
     = py ''date-released: '' @ dq @ py ''2026-01-01'' @ dq @ nl
   \<and> snd (process \<lparr>dt_year = 2026, dt_month = 11, dt_day = 4\<rparr>
              [\<lparr>entry_type = py ''article'',
                fields_dict = [''title'' \<mapsto> py ''T'', ''author'' \<mapsto> py ''Jane Doe'']\<rparr>])
     = None"
  by code_simp

text \<open>
  Claim C9 says that a second call of \<open>prep_info_for_export\<close> changes no derived field.
  The code, for a model without a \<open>year\<close>, called on 31 December 2025 and again on
  1 January 2026: the first call stores \<open>2025-01-01\<close> and the second replaces it by
  \<open>2026-01-01\<close>, since the date is built again although \<open>date-released\<close> is present.
\<close>

theorem second_call_changes_date:
  "(case prep_info_for_export \<lparr>dt_year = 2025, dt_month = 12, dt_day = 31\<rparr>
           \<lparr>info_dict = [''ENTRYTYPE'' \<mapsto> PStr (py ''article''), ''title'' \<mapsto> PStr (py ''T'')],
            author_dict = None, bibtex_provided = True, repo_provided = False\<rparr> of
      Inl e \<Rightarrow> None
    | Inr self1 \<Rightarrow>
        (case prep_info_for_export \<lparr>dt_year = 2026, dt_month = 1, dt_day = 1\<rparr> self1 of
           Inl e \<Rightarrow> None
         | Inr self2 \<Rightarrow>
             Some (info_dict self1 ''date-released'', info_dict self2 ''date-released'')))
   = Some (Some (PStr (py ''2025-01-01'')), Some (PStr (py ''2026-01-01'')))"
  by code_simp

section \<open>The type table\<close>

lemma py_inject: "py a = py b \<longleftrightarrow> a = b"
  by (simp add: py_def inj_map_eq_map [OF inj_of_char])

lemma type_mapping_absent:
  "t \<notin> py ` {''article'', ''book'', ''booklet'', ''inproceedings'', ''proceedings'',
              ''misc'', ''manual'', ''software'', ''techreport'', ''unpublished''}
   \<Longrightarrow> map_of type_mapping_bib_to_cff t = None"
  unfolding map_of_eq_None_iff by (simp add: type_mapping_bib_to_cff_def)


lemma type_mapping_present:
  "(k, v) \<in> {(''article'', ''article''), (''book'', ''book''),
              (''booklet'', ''pamphlet''), (''inproceedings'', ''conference-paper''),
              (''proceedings'', ''proceedings''), (''misc'', ''generic''),
              (''manual'', ''manual''), (''software'', ''software''),
              (''techreport'', ''report''), (''unpublished'', ''unpublished'')}
   \<Longrightarrow> map_of type_mapping_bib_to_cff (py k) = Some (py v)"
  by (elim insertE emptyE) (simp_all add: type_mapping_bib_to_cff_def py_inject)

lemma prep_keeps_cff_type:
  "prep_conference (prep_journal (d(''cff_type'' \<mapsto> c))) ''cff_type'' = Some c"
  by (simp add: prep_conference_def prep_journal_def split: option.splits)

lemma prep_type_known:
  "d ''ENTRYTYPE'' = Some (PStr t) \<Longrightarrow> map_of type_mapping_bib_to_cff t = Some c
   \<Longrightarrow> prep_type d = Inr (d(''cff_type'' \<mapsto> PStr c))"
  by (simp add: prep_type_def)

lemma prep_type_unknown:
  "d ''ENTRYTYPE'' = Some (PStr t) \<Longrightarrow> map_of type_mapping_bib_to_cff t = None
   \<Longrightarrow> prep_type d = Inl (KeyError (PStr t))"
  by (simp add: prep_type_def)

lemma prep_date_keeps:
  "k \<noteq> ''date-released'' \<Longrightarrow> prep_date dt d = Inr d' \<Longrightarrow> d' k = d k"
  by (auto simp add: prep_date_eq)

lemma prep_date_total: "\<exists>d'. prep_date dt d = Inr d'"
  by (simp add: prep_date_eq)


text \<open>
  Claim C4. The entry type is looked up in the ten-entry table and nowhere else: a tag
  that is one of the ten keys gets the table's value as \<open>cff_type\<close>, and for any other
  tag \<open>prep_info_for_export\<close> fails with the \<open>KeyError\<close> of the subscript (the spec's
  \<open>UnknownEntryTypeError\<close>); no tag outside the table is mapped to \<open>generic\<close>.
\<close>

theorem type_mapping_table:
  assumes "bibtex_provided self" and "info_dict self ''ENTRYTYPE'' = Some (PStr t)"
  shows "(t \<notin> py ` {''article'', ''book'', ''booklet'', ''inproceedings'', ''proceedings'',
                     ''misc'', ''manual'', ''software'', ''techreport'', ''unpublished''}
          \<longrightarrow> prep_info_for_export dt self = Inl (KeyError (PStr t)))
       \<and> (\<forall>(k, v) \<in> {(''article'', ''article''), (''book'', ''book''),
                        (''booklet'', ''pamphlet''), (''inproceedings'', ''conference-paper''),
                        (''proceedings'', ''proceedings''), (''misc'', ''generic''),
                        (''manual'', ''manual''), (''software'', ''software''),
                        (''techreport'', ''report''), (''unpublished'', ''unpublished'')}.
            t = py k \<longrightarrow>
              (\<exists>self'. prep_info_for_export dt self = Inr self'
                 \<and> info_dict self' ''cff_type'' = Some (PStr (py v))))"
proof -
  obtain d1 where d1: "prep_date dt (info_dict self) = Inr d1"
    using prep_date_total by blast
  have tag: "d1 ''ENTRYTYPE'' = Some (PStr t)"
    using prep_date_keeps [of "''ENTRYTYPE''" dt "info_dict self" d1] assms(2) d1 by simp
  have unknown: "prep_info_for_export dt self = Inl (KeyError (PStr t))"
    if "map_of type_mapping_bib_to_cff t = None"
    using assms(1) d1 prep_type_unknown [of d1 t, OF tag that]
    by (simp add: prep_info_for_export_def)
  have known: "\<exists>self'. prep_info_for_export dt self = Inr self'
                 \<and> info_dict self' ''cff_type'' = Some (PStr c)"
    if "map_of type_mapping_bib_to_cff t = Some c" for c
    using assms(1) d1 prep_type_known [of d1 t c, OF tag that]
    by (simp add: prep_info_for_export_def prep_keeps_cff_type)
  show ?thesis
  proof (intro conjI impI ballI)
    assume "t \<notin> py ` {''article'', ''book'', ''booklet'', ''inproceedings'', ''proceedings'',
                     ''misc'', ''manual'', ''software'', ''techreport'', ''unpublished''}"
    then show "prep_info_for_export dt self = Inl (KeyError (PStr t))"
      by (rule unknown [OF type_mapping_absent])
  next
    fix x :: "string \<times> string"
    assume x: "x \<in> {(''article'', ''article''), (''book'', ''book''),
                        (''booklet'', ''pamphlet''), (''inproceedings'', ''conference-paper''),
                        (''proceedings'', ''proceedings''), (''misc'', ''generic''),
                        (''manual'', ''manual''), (''software'', ''software''),
                        (''techreport'', ''report''), (''unpublished'', ''unpublished'')}"
    obtain k v where kv: "x = (k, v)"
      by (cases x)
    have "map_of type_mapping_bib_to_cff (py k) = Some (py v)"
      using x unfolding kv by (rule type_mapping_present)
    then have "t = py k \<longrightarrow> (\<exists>self'. prep_info_for_export dt self = Inr self'
                 \<and> info_dict self' ''cff_type'' = Some (PStr (py v)))"
      using known by blast
    then show "case x of (k, v) \<Rightarrow> t = py k \<longrightarrow>
              (\<exists>self'. prep_info_for_export dt self = Inr self'
                 \<and> info_dict self' ''cff_type'' = Some (PStr (py v)))"
      unfolding kv by simp
  qed
qed

text \<open>The tags \<open>weird\<close> and \<open>inproceedings\<close>.\<close>

theorem type_mapping_table_witness:
  "prep_info_for_export \<lparr>dt_year = 2026, dt_month = 11, dt_day = 4\<rparr>
     \<lparr>info_dict = [''ENTRYTYPE'' \<mapsto> PStr (py ''weird'')], author_dict = None,
      bibtex_provided = True, repo_provided = False\<rparr>
   = Inl (KeyError (PStr (py ''weird'')))
   \<and> (\<exists>self'. prep_info_for_export \<lparr>dt_year = 2026, dt_month = 11, dt_day = 4\<rparr>
         \<lparr>info_dict = [''ENTRYTYPE'' \<mapsto> PStr (py ''inproceedings'')], author_dict = None,
          bibtex_provided = True, repo_provided = False\<rparr> = Inr self'
       \<and> info_dict self' ''cff_type'' = Some (PStr (py ''conference-paper'')))"
proof -
  let ?dt = "\<lparr>dt_year = 2026, dt_month = 11, dt_day = 4\<rparr>"
  let ?w = "\<lparr>info_dict = [''ENTRYTYPE'' \<mapsto> PStr (py ''weird'')], author_dict = None,
      bibtex_provided = True, repo_provided = False\<rparr>"
  let ?c = "\<lparr>info_dict = [''ENTRYTYPE'' \<mapsto> PStr (py ''inproceedings'')], author_dict = None,
          bibtex_provided = True, repo_provided = False\<rparr>"
  have w1: "bibtex_provided ?w" and w2: "info_dict ?w ''ENTRYTYPE'' = Some (PStr (py ''weird''))"
    by simp_all
  have w3: "py ''weird'' \<notin> py ` {''article'', ''book'', ''booklet'', ''inproceedings'',
      ''proceedings'', ''misc'', ''manual'', ''software'', ''techreport'', ''unpublished''}"
    by (simp add: py_inject)
  have c1: "bibtex_provided ?c"
    and c2: "info_dict ?c ''ENTRYTYPE'' = Some (PStr (py ''inproceedings''))"
    by simp_all
  have "prep_info_for_export ?dt ?w = Inl (KeyError (PStr (py ''weird'')))"
    using type_mapping_table [OF w1 w2, of ?dt] w3 by blast
  moreover have "\<exists>self'. prep_info_for_export ?dt ?c = Inr self'
       \<and> info_dict self' ''cff_type'' = Some (PStr (py ''conference-paper''))"
    using type_mapping_table [OF c1 c2, of ?dt] by simp
  ultimately show ?thesis by simp
qed

section \<open>Serialisation: what is written before a failure\<close>

lemma prep_date_released: "\<exists>r. prep_date dt d = Inr (d(''date-released'' \<mapsto> PStr r))"
  unfolding prep_date_eq by blast

lemma prep_type_keeps:
  "prep_type d = Inr d' \<Longrightarrow> k \<noteq> ''cff_type'' \<Longrightarrow> d' k = d k"
  by (auto simp add: prep_type_def split: option.splits pyval.splits)

lemma prep_journal_keeps: "k \<noteq> ''journal'' \<Longrightarrow> prep_journal d k = d k"
  by (simp add: prep_journal_def split: option.splits)

lemma prep_conference_keeps: "k \<noteq> ''conference'' \<Longrightarrow> prep_conference d k = d k"
  by (simp add: prep_conference_def split: option.splits)

lemma prep_info_for_export_released:
  assumes "prep_info_for_export dt self = Inr self'"
  shows "\<exists>r. info_dict self' ''date-released'' = Some (PStr r)"
proof -
  obtain r where r: "prep_date dt (info_dict self) = Inr ((info_dict self)(''date-released'' \<mapsto> PStr r))"
    using prep_date_released by blast
  from assms r obtain d2 where
    d2: "prep_type ((info_dict self)(''date-released'' \<mapsto> PStr r)) = Inr d2"
    and s: "self' = self\<lparr>info_dict := prep_conference (prep_journal d2)\<rparr>"
    by (auto simp add: prep_info_for_export_def split: if_splits sum.splits)
  have "d2 ''date-released'' = Some (PStr r)"
    using prep_type_keeps [OF d2, of "''date-released''"] by simp
  then show ?thesis
    by (simp add: s prep_conference_keeps prep_journal_keeps)
qed

lemma prep_info_for_export_keeps:
  assumes "prep_info_for_export dt self = Inr self'"
  shows "author_dict self' = author_dict self"
    and "k \<notin> {''date-released'', ''cff_type'', ''journal'', ''conference''}
         \<Longrightarrow> info_dict self' k = info_dict self k"
proof -
  obtain r where r: "prep_date dt (info_dict self) = Inr ((info_dict self)(''date-released'' \<mapsto> PStr r))"
    using prep_date_released by blast
  from assms r obtain d2 where
    d2: "prep_type ((info_dict self)(''date-released'' \<mapsto> PStr r)) = Inr d2"
    and s: "self' = self\<lparr>info_dict := prep_conference (prep_journal d2)\<rparr>"
    by (auto simp add: prep_info_for_export_def split: if_splits sum.splits)
  show "author_dict self' = author_dict self"
    by (simp add: s)
  show "info_dict self' k = info_dict self k"
    if "k \<notin> {''date-released'', ''cff_type'', ''journal'', ''conference''}"
    using that prep_type_keeps [OF d2, of k]
    by (simp add: s prep_conference_keeps prep_journal_keeps)
qed

lemma run_append:
  "run (xs @ ys) out =
     (case run xs out of (out', None) \<Rightarrow> run ys out' | (out', Some e) \<Rightarrow> (out', Some e))"
  by (induction xs arbitrary: out) (auto split: prod.splits option.splits)

lemma write_item_present:
  "d key = Some v \<Longrightarrow> write_item d pre key post out = (out @ [pre @ py_str v @ post], None)"
  by (simp add: write_item_def f_write_def)

lemma write_item_absent:
  "d key = None \<Longrightarrow> write_item d pre key post out = (out, Some (KeyError (PStr (py key))))"
  by (simp add: write_item_def)


lemma emit_head:
  "\<exists>rest. emit cff_version self =
     [write_item (info_dict self) (py ''date-released: '' @ dq) ''date-released'' (dq @ nl),
      (if info_dict self ''doi'' \<noteq> None
       then write_item (info_dict self) (py ''doi: '' @ dq) ''doi'' (dq @ nl)
       else if info_dict self ''repo_doi'' \<noteq> None
       then write_item (info_dict self) (py ''doi: '' @ dq) ''repo_doi'' (dq @ nl)
       else pass),
      write_item (info_dict self) (py ''title: '' @ dq) ''title'' (dq @ nl),
      f_write (py ''cff-version: '' @ dq @ cff_version @ dq @ nl),
      (if info_dict self ''repo_version'' \<noteq> None
       then write_item (info_dict self) (py ''version: '' @ dq) ''repo_version'' (dq @ nl)
       else pass),
      add_author_names_to_cff self 0] @ rest"
  by (simp add: emit_def Let_def)

lemma doi_statement:
  "\<exists>out'. (if d ''doi'' \<noteq> None then write_item d pre ''doi'' post
           else if d ''repo_doi'' \<noteq> None then write_item d pre ''repo_doi'' post
           else pass) out = (out', None)"
  by (auto simp add: write_item_def f_write_def pass_def)

lemma version_statement:
  "\<exists>out'. (if d ''repo_version'' \<noteq> None then write_item d pre ''repo_version'' post
           else pass) out = (out', None)"
  by (auto simp add: write_item_def f_write_def pass_def)

lemma run_emit_title_absent:
  assumes rel: "info_dict self' ''date-released'' = Some (PStr released)"
    and title: "info_dict self' ''title'' = None"
  shows "run (emit cff_version self') [] =
         ([py ''date-released: '' @ dq @ released @ dq @ nl]
          @ (case info_dict self' ''doi'' of
               Some v \<Rightarrow> [py ''doi: '' @ dq @ py_str v @ dq @ nl]
             | None \<Rightarrow>
                 (case info_dict self' ''repo_doi'' of
                    Some v \<Rightarrow> [py ''doi: '' @ dq @ py_str v @ dq @ nl]
                  | None \<Rightarrow> [])),
          Some (KeyError (PStr (py ''title''))))"
proof -
  obtain rest where rest: "emit cff_version self' =
     [write_item (info_dict self') (py ''date-released: '' @ dq) ''date-released'' (dq @ nl),
      (if info_dict self' ''doi'' \<noteq> None
       then write_item (info_dict self') (py ''doi: '' @ dq) ''doi'' (dq @ nl)
       else if info_dict self' ''repo_doi'' \<noteq> None
       then write_item (info_dict self') (py ''doi: '' @ dq) ''repo_doi'' (dq @ nl)
       else pass),
      write_item (info_dict self') (py ''title: '' @ dq) ''title'' (dq @ nl),
      f_write (py ''cff-version: '' @ dq @ cff_version @ dq @ nl),
      (if info_dict self' ''repo_version'' \<noteq> None
       then write_item (info_dict self') (py ''version: '' @ dq) ''repo_version'' (dq @ nl)
       else pass),
      add_author_names_to_cff self' 0] @ rest"
    using emit_head by blast
  let ?l1 = "py ''date-released: '' @ dq @ released @ dq @ nl"
  let ?doi = "case info_dict self' ''doi'' of
               Some v \<Rightarrow> [py ''doi: '' @ dq @ py_str v @ dq @ nl]
             | None \<Rightarrow>
                 (case info_dict self' ''repo_doi'' of
                    Some v \<Rightarrow> [py ''doi: '' @ dq @ py_str v @ dq @ nl]
                  | None \<Rightarrow> [])"
  have r1: "write_item (info_dict self') (py ''date-released: '' @ dq) ''date-released''
              (dq @ nl) [] = ([?l1], None)"
    using write_item_present [of "info_dict self'" "''date-released''", OF rel] by simp
  have r2: "(if info_dict self' ''doi'' \<noteq> None
       then write_item (info_dict self') (py ''doi: '' @ dq) ''doi'' (dq @ nl)
       else if info_dict self' ''repo_doi'' \<noteq> None
       then write_item (info_dict self') (py ''doi: '' @ dq) ''repo_doi'' (dq @ nl)
       else pass) [?l1] = (?l1 # ?doi, None)"
    by (simp add: write_item_def f_write_def pass_def split: option.splits)
  have r3: "write_item (info_dict self') (py ''title: '' @ dq) ''title'' (dq @ nl) (?l1 # ?doi)
      = (?l1 # ?doi, Some (KeyError (PStr (py ''title''))))"
    using title by (simp add: write_item_def)
  show ?thesis
    unfolding rest
    by (simp only: append.simps run.simps r1 r2 r3 prod.case option.case)
qed

lemma add_author_names_absent:
  "author_dict self = None \<Longrightarrow>
   add_author_names_to_cff self 0 out = (out, Some (AssertionError []))"
  by (simp add: add_author_names_to_cff_def)

lemma run_emit_no_authors:
  assumes rel: "info_dict self' ''date-released'' = Some (PStr released)"
    and title: "info_dict self' ''title'' = Some t"
    and authors: "author_dict self' = None"
  shows "snd (run (emit cff_version self') []) = Some (AssertionError [])"
proof -
  obtain rest where rest: "emit cff_version self' =
     [write_item (info_dict self') (py ''date-released: '' @ dq) ''date-released'' (dq @ nl),
      (if info_dict self' ''doi'' \<noteq> None
       then write_item (info_dict self') (py ''doi: '' @ dq) ''doi'' (dq @ nl)
       else if info_dict self' ''repo_doi'' \<noteq> None
       then write_item (info_dict self') (py ''doi: '' @ dq) ''repo_doi'' (dq @ nl)
       else pass),
      write_item (info_dict self') (py ''title: '' @ dq) ''title'' (dq @ nl),
      f_write (py ''cff-version: '' @ dq @ cff_version @ dq @ nl),
      (if info_dict self' ''repo_version'' \<noteq> None
       then write_item (info_dict self') (py ''version: '' @ dq) ''repo_version'' (dq @ nl)
       else pass),
      add_author_names_to_cff self' 0] @ rest"
    using emit_head by blast
  obtain o1 where r1: "write_item (info_dict self') (py ''date-released: '' @ dq)
      ''date-released'' (dq @ nl) [] = (o1, None)"
    using write_item_present [of "info_dict self'" "''date-released''", OF rel] by simp
  obtain o2 where r2: "(if info_dict self' ''doi'' \<noteq> None
       then write_item (info_dict self') (py ''doi: '' @ dq) ''doi'' (dq @ nl)
       else if info_dict self' ''repo_doi'' \<noteq> None
       then write_item (info_dict self') (py ''doi: '' @ dq) ''repo_doi'' (dq @ nl)
       else pass) o1 = (o2, None)"
    using doi_statement by blast
  obtain o3 where r3: "write_item (info_dict self') (py ''title: '' @ dq) ''title''
      (dq @ nl) o2 = (o3, None)"
    using write_item_present [of "info_dict self'" "''title''", OF title] by simp
  obtain o4 where r4: "f_write (py ''cff-version: '' @ dq @ cff_version @ dq @ nl) o3 = (o4, None)"
    by (simp add: f_write_def)
  obtain o5 where r5: "(if info_dict self' ''repo_version'' \<noteq> None
       then write_item (info_dict self') (py ''version: '' @ dq) ''repo_version'' (dq @ nl)
       else pass) o4 = (o5, None)"
    using version_statement by blast
  have r6: "add_author_names_to_cff self' 0 o5 = (o5, Some (AssertionError []))"
    by (rule add_author_names_absent [OF authors])
  show ?thesis
    unfolding rest
    by (simp only: append.simps run.simps r1 r2 r3 r4 r5 r6 prod.case option.case snd_conv)
qed

text \<open>
  Claim C3, as amended. Nothing buffers the output: \<open>export_as_cff\<close> writes line by line,
  and an exception keeps what was written before it. For a model without a title the
  subscript of line 159 raises \<open>KeyError\<close> (the spec's \<open>MissingRequiredFieldError\<close>) after the
  \<open>date-released\<close> line and, when \<open>doi\<close> or else \<open>repo_doi\<close> is present, the \<open>doi\<close> line have
  been written, and nothing more is written.
\<close>

theorem title_absent_partial_output:
  assumes "prep_info_for_export dt self = Inr self'"
    and "info_dict self' ''title'' = None"
  shows "\<exists>released. info_dict self' ''date-released'' = Some (PStr released)
     \<and> export_as_cff dt cff_version self =
         ([py ''date-released: '' @ dq @ released @ dq @ nl]
          @ (case info_dict self' ''doi'' of
               Some v \<Rightarrow> [py ''doi: '' @ dq @ py_str v @ dq @ nl]
             | None \<Rightarrow>
                 (case info_dict self' ''repo_doi'' of
                    Some v \<Rightarrow> [py ''doi: '' @ dq @ py_str v @ dq @ nl]
                  | None \<Rightarrow> [])),
          Some (KeyError (PStr (py ''title''))))"
proof -
  obtain released where rel: "info_dict self' ''date-released'' = Some (PStr released)"
    using prep_info_for_export_released [OF assms(1)] by blast
  show ?thesis
    using rel run_emit_title_absent [OF rel assms(2), of cff_version]
    by (simp add: export_as_cff_def assms(1))
qed


text \<open>
  An entry with a \<open>doi\<close> and no title, converted on 4 November 2026: the run ends in the
  \<open>KeyError\<close> with two lines already written.
\<close>

theorem partial_output_counterexample:
  "process \<lparr>dt_year = 2026, dt_month = 11, dt_day = 4\<rparr>
     [\<lparr>entry_type = py ''article'',
       fields_dict = [''author'' \<mapsto> py ''Jane Doe'', ''year'' \<mapsto> py ''2020'',
                      ''doi'' \<mapsto> py ''10.1/x'']\<rparr>]
   = ([py ''date-released: '' @ dq @ py ''2020-01-01'' @ dq @ nl,
       py ''doi: '' @ dq @ py ''10.1/x'' @ dq @ nl],
      Some (KeyError (PStr (py ''title''))))"
  by code_simp

text \<open>The same model, prepared and serialised.\<close>

theorem title_absent_partial_output_witness:
  "export_as_cff \<lparr>dt_year = 2026, dt_month = 11, dt_day = 4\<rparr> (py ''1.2.0'')
     \<lparr>info_dict = [''ENTRYTYPE'' \<mapsto> PStr (py ''article''), ''year'' \<mapsto> PStr (py ''2020''),
                   ''doi'' \<mapsto> PStr (py ''10.1/x'')],
      author_dict = None, bibtex_provided = True, repo_provided = False\<rparr>
   = ([py ''date-released: '' @ dq @ py ''2020-01-01'' @ dq @ nl,
       py ''doi: '' @ dq @ py ''10.1/x'' @ dq @ nl],
      Some (KeyError (PStr (py ''title''))))"
proof -
  let ?dt = "\<lparr>dt_year = 2026, dt_month = 11, dt_day = 4\<rparr>"
  let ?c = "\<lparr>info_dict = [''ENTRYTYPE'' \<mapsto> PStr (py ''article''),
                   ''year'' \<mapsto> PStr (py ''2020''), ''doi'' \<mapsto> PStr (py ''10.1/x'')],
      author_dict = None, bibtex_provided = True, repo_provided = False\<rparr>"
  have "map_of type_mapping_bib_to_cff (py ''article'') = Some (py ''article'')"
    by (rule type_mapping_present) simp
  then obtain self' where p: "prep_info_for_export ?dt ?c = Inr self'"
    by (simp add: prep_info_for_export_def prep_date_eq prep_type_def)
  have t: "info_dict self' ''title'' = None"
    and d: "info_dict self' ''doi'' = Some (PStr (py ''10.1/x''))"
    using prep_info_for_export_keeps(2) [OF p] by simp_all
  have "(case prep_info_for_export ?dt ?c of
           Inl e \<Rightarrow> None
         | Inr s \<Rightarrow> info_dict s ''date-released'') = Some (PStr (py ''2020-01-01''))"
    by code_simp
  then have r: "info_dict self' ''date-released'' = Some (PStr (py ''2020-01-01''))"
    by (simp add: p)
  show ?thesis
    using title_absent_partial_output [OF p t, of "py ''1.2.0''"] d r by simp
qed

section \<open>Entries without authors\<close>

lemma fold_copy_lookup:
  "fold (\<lambda>key d'. case f key of Some v \<Rightarrow> d'(key \<mapsto> PStr v) | None \<Rightarrow> d') ks d k =
     (if k \<in> set ks then (case f k of Some v \<Rightarrow> Some (PStr v) | None \<Rightarrow> d k) else d k)"
  by (induction ks arbitrary: d) (auto split: option.splits)

lemma copy_fields_lookup:
  "copy_fields bib_info d k =
     (if k \<in> set allow_list
      then (case fields_dict bib_info k of Some v \<Rightarrow> Some (PStr v) | None \<Rightarrow> d k)
      else d k)"
  unfolding copy_fields_def by (rule fold_copy_lookup)

lemma parse_pages_keeps:
  "parse_pages d = Inr d' \<Longrightarrow> k \<noteq> ''start'' \<Longrightarrow> k \<noteq> ''end'' \<Longrightarrow> d' k = d k"
  by (auto simp add: parse_pages_def Let_def split: option.splits pyval.splits if_splits)

lemma Citation_no_author:
  assumes "fields_dict e ''author'' = None" and "Citation [e] = Inr c"
  shows "author_dict c = None" and "bibtex_provided c"
    and "info_dict c ''title'' = map_option PStr (fields_dict e ''title'')"
proof -
  from assms obtain d where
    d: "parse_pages (copy_fields e [''ENTRYTYPE'' \<mapsto> PStr (entry_type e)]) = Inr d"
    and c: "c = \<lparr>info_dict = d(''author'' \<mapsto> PNone), author_dict = None,
                bibtex_provided = True, repo_provided = False\<rparr>"
    by (auto simp add: Citation_def parse_bibtex_def split: sum.splits)
  show "author_dict c = None" and "bibtex_provided c"
    by (simp_all add: c)
  have "d ''title'' = copy_fields e [''ENTRYTYPE'' \<mapsto> PStr (entry_type e)] ''title''"
    by (rule parse_pages_keeps [OF d]) simp_all
  then show "info_dict c ''title'' = map_option PStr (fields_dict e ''title'')"
    by (simp add: c copy_fields_lookup allow_list_def split: option.splits)
qed

text \<open>
  Claim C10. An entry without an \<open>author\<close> field is never converted: \<open>process\<close> always
  ends in an exception. If parsing and preparation succeed, the exception is the
  \<open>KeyError\<close> of the title when the entry has no title, and otherwise the failed
  assertion of line 132 in the first call of \<open>add_author_names_to_cff\<close>, since
  \<open>parse_bibtex\<close> stores no \<open>author_dict\<close> for such an entry.
\<close>

theorem no_author_never_exported:
  assumes "fields_dict e ''author'' = None"
  shows "snd (process dt [e]) =
     Some (case Citation [e] of
             Inl err \<Rightarrow> err
           | Inr c \<Rightarrow>
               (case prep_info_for_export dt c of
                  Inl err \<Rightarrow> err
                | Inr c' \<Rightarrow>
                    if fields_dict e ''title'' = None then KeyError (PStr (py ''title''))
                    else AssertionError []))"
proof (cases "Citation [e]")
  case (Inl err)
  then show ?thesis by (simp add: process_def)
next
  case (Inr c)
  note c = Citation_no_author [OF assms Inr]
  show ?thesis
  proof (cases "prep_info_for_export dt c")
    case (Inl err)
    then show ?thesis using Inr by (simp add: process_def export_as_cff_def)
  next
    case prep: (Inr c')
    obtain released where rel: "info_dict c' ''date-released'' = Some (PStr released)"
      using prep_info_for_export_released [OF prep] by blast
    have authors: "author_dict c' = None"
      using prep_info_for_export_keeps(1) [OF prep] c(1) by simp
    have title: "info_dict c' ''title'' = map_option PStr (fields_dict e ''title'')"
      using prep_info_for_export_keeps(2) [OF prep, of "''title''"] c(3) by simp
    show ?thesis
    proof (cases "fields_dict e ''title''")
      case None
      then have "info_dict c' ''title'' = None"
        using title by simp
      from run_emit_title_absent [OF rel this, of "py ''1.2.0''"] show ?thesis
        using Inr prep None by (simp add: process_def export_as_cff_def)
    next
      case (Some t)
      then have "info_dict c' ''title'' = Some (PStr t)"
        using title by simp
      from run_emit_no_authors [OF rel this authors, of "py ''1.2.0''"] show ?thesis
        using Inr prep Some by (simp add: process_def export_as_cff_def)
    qed
  qed
qed

text \<open>An entry with a title and a year and no author.\<close>

theorem no_author_never_exported_witness:
  "snd (process \<lparr>dt_year = 2026, dt_month = 11, dt_day = 4\<rparr>
          [\<lparr>entry_type = py ''article'',
            fields_dict = [''title'' \<mapsto> py ''T'', ''year'' \<mapsto> py ''2020'']\<rparr>])
   = Some (AssertionError [])"
proof -
  let ?dt = "\<lparr>dt_year = 2026, dt_month = 11, dt_day = 4\<rparr>"
  let ?e = "\<lparr>entry_type = py ''article'',
            fields_dict = [''title'' \<mapsto> py ''T'', ''year'' \<mapsto> py ''2020'']\<rparr>"
  have h: "fields_dict ?e ''author'' = None"
    by simp
  have rhs: "(case Citation [?e] of
             Inl err \<Rightarrow> err
           | Inr c \<Rightarrow>
               (case prep_info_for_export ?dt c of
                  Inl err \<Rightarrow> err
                | Inr c' \<Rightarrow>
                    if fields_dict ?e ''title'' = None then KeyError (PStr (py ''title''))
                    else AssertionError [])) = AssertionError []"
    by code_simp
  show ?thesis
    using no_author_never_exported [OF h, of ?dt] by (simp only: rhs)
qed

section \<open>Splitting on a one-character separator\<close>

lemma split_sep_single:
  "split_sep [c] cur s =
     (cur @ takeWhile (\<lambda>x. x \<noteq> c) s)
     # (case dropWhile (\<lambda>x. x \<noteq> c) s of [] \<Rightarrow> [] | x # r \<Rightarrow> split_sep [c] [] r)"
  by (induction s arbitrary: cur) auto

lemma length_split_sep_single: "length (split_sep [c] cur s) = Suc (count_list s c)"
  by (induction s arbitrary: cur) auto

lemma split_sep_absent: "c \<notin> set s \<Longrightarrow> split_sep [c] cur s = [cur @ s]"
  by (induction s arbitrary: cur) auto

lemma length_py_split: "length (py_split [c] s) = Suc (count_list s c)"
  by (simp add: py_split_def length_split_sep_single)

lemma py_split_one:
  assumes "length (py_split [c] s) = 1"
  shows "py_split [c] s = [s]"
proof -
  have "count_list s c = 0"
    using assms by (simp add: length_py_split)
  then have "c \<notin> set s"
    by (simp add: count_list_0_iff)
  then show ?thesis
    by (simp add: py_split_def split_sep_absent)
qed

lemma dropWhile_neq_member:
  assumes "c \<in> set s"
  shows "\<exists>r. dropWhile (\<lambda>x. x \<noteq> c) s = c # r"
proof (cases "dropWhile (\<lambda>x. x \<noteq> c) s")
  case Nil
  then show ?thesis
    using assms by (auto simp add: dropWhile_eq_Nil_conv)
next
  case (Cons x r)
  then have "\<not> x \<noteq> c"
    using hd_dropWhile [of "\<lambda>x. x \<noteq> c" s] by simp
  then show ?thesis
    using Cons by simp
qed

lemma count_one_member: "count_list s c = 1 \<Longrightarrow> c \<in> set s"
  using count_list_0_iff [of s c] by (cases "c \<in> set s") simp_all

lemma count_takeWhile_neq: "count_list (takeWhile (\<lambda>x. x \<noteq> c) s) c = 0"
  by (induction s) simp_all

lemma count_split_at:
  "dropWhile (\<lambda>x. x \<noteq> c) s = c # r \<Longrightarrow> count_list s c = Suc (count_list r c)"
  by (induction s) (simp_all split: if_splits)

lemma py_split_two:
  assumes "count_list s c = 1"
  shows "py_split [c] s = [takeWhile (\<lambda>x. x \<noteq> c) s, tl (dropWhile (\<lambda>x. x \<noteq> c) s)]"
proof -
  have "c \<in> set s"
    using assms by (rule count_one_member)
  from dropWhile_neq_member [OF this]
  obtain r where r: "dropWhile (\<lambda>x. x \<noteq> c) s = c # r" ..
  have "count_list r c = 0"
    using count_split_at [OF r] assms by simp
  then have "c \<notin> set r"
    by (simp add: count_list_0_iff)
  then have "split_sep [c] [] r = [r]"
    using split_sep_absent [of c r "[]"] by simp
  then have "split_sep [c] [] s = [takeWhile (\<lambda>x. x \<noteq> c) s, r]"
    using r by (subst split_sep_single) simp
  then show ?thesis
    using r by (simp add: py_split_def)
qed

section \<open>Splitting on whitespace\<close>

lemma dropWhile_hd_keeps: "xs \<noteq> [] \<Longrightarrow> \<not> P (hd xs) \<Longrightarrow> dropWhile P xs = xs"
  by (cases xs) simp_all

lemma takeWhile_nonempty: "xs \<noteq> [] \<Longrightarrow> P (hd xs) \<Longrightarrow> takeWhile P xs \<noteq> []"
  by (cases xs) simp_all

lemma dropWhile_hd: "dropWhile P xs \<noteq> [] \<Longrightarrow> \<not> P (hd (dropWhile P xs))"
  by (rule hd_dropWhile)

lemma strip_sandwich:
  assumes u: "\<forall>x\<in>set u. isspace x" and v: "\<forall>x\<in>set v. isspace x"
    and m: "m \<noteq> []" and h: "\<not> isspace (hd m)" and l: "\<not> isspace (last m)"
  shows "strip (u @ m @ v) = m"
proof -
  have "dropWhile isspace (u @ m @ v) = dropWhile isspace (m @ v)"
    by (rule dropWhile_append2) (use u in simp)
  also have "\<dots> = m @ v"
    using m h by (cases m) simp_all
  finally have 1: "dropWhile isspace (u @ m @ v) = m @ v" .
  have "dropWhile isspace (rev v @ rev m) = dropWhile isspace (rev m)"
    by (rule dropWhile_append2) (use v in simp)
  also have "\<dots> = rev m"
    using m l by (intro dropWhile_hd_keeps) (simp_all add: hd_rev)
  finally show ?thesis
    by (simp add: strip_def 1)
qed

lemma py_split_ws_pieces:
  "p \<in> set (py_split_ws s) \<Longrightarrow> p \<noteq> [] \<and> (\<forall>x\<in>set p. \<not> isspace x)"
proof (induction s rule: py_split_ws.induct)
  case (1 s)
  show ?case
  proof (cases "dropWhile isspace s = []")
    case True
    then show ?thesis using "1.prems" by (simp add: py_split_ws.simps [of s])
  next
    case False
    then have "\<not> isspace (hd (dropWhile isspace s))"
      by (rule dropWhile_hd)
    then have ne: "takeWhile (\<lambda>x. \<not> isspace x) (dropWhile isspace s) \<noteq> []"
      using False by (intro takeWhile_nonempty) simp_all
    have "py_split_ws s = takeWhile (\<lambda>x. \<not> isspace x) (dropWhile isspace s)
        # py_split_ws (dropWhile (\<lambda>x. \<not> isspace x) (dropWhile isspace s))"
      using False by (subst py_split_ws.simps) (simp only: if_False)
    with "1.prems"
    consider "p = takeWhile (\<lambda>x. \<not> isspace x) (dropWhile isspace s)"
      | "p \<in> set (py_split_ws (dropWhile (\<lambda>x. \<not> isspace x) (dropWhile isspace s)))"
      by auto
    then show ?thesis
    proof cases
      case 1
      then show ?thesis using ne by (auto dest: set_takeWhileD)
    next
      case 2
      then show ?thesis by (rule "1.IH" [OF False])
    qed
  qed
qed

lemma strip_piece:
  assumes "p \<in> set (py_split_ws s)"
  shows "strip p = p"
proof -
  have p: "p \<noteq> []" "\<forall>x\<in>set p. \<not> isspace x"
    using py_split_ws_pieces [OF assms] by simp_all
  then have "\<not> isspace (hd p)" "\<not> isspace (last p)"
    by simp_all
  then show ?thesis
    using strip_sandwich [of "[]" "[]" p] p(1) by simp
qed


lemma py_split_ws_empty: "py_split_ws s = [] \<Longrightarrow> dropWhile isspace s = []"
  by (subst (asm) py_split_ws.simps) (simp split: if_splits)

lemma py_split_ws_cons:
  assumes "py_split_ws s = p # ps"
  shows "dropWhile isspace s \<noteq> []"
    and "p = takeWhile (\<lambda>x. \<not> isspace x) (dropWhile isspace s)"
    and "ps = py_split_ws (dropWhile (\<lambda>x. \<not> isspace x) (dropWhile isspace s))"
proof -
  show ne: "dropWhile isspace s \<noteq> []"
    using assms by (subst (asm) py_split_ws.simps) (simp split: if_splits)
  have "py_split_ws s = takeWhile (\<lambda>x. \<not> isspace x) (dropWhile isspace s)
        # py_split_ws (dropWhile (\<lambda>x. \<not> isspace x) (dropWhile isspace s))"
    using ne by (subst py_split_ws.simps) (simp only: if_False)
  with assms show "p = takeWhile (\<lambda>x. \<not> isspace x) (dropWhile isspace s)"
    and "ps = py_split_ws (dropWhile (\<lambda>x. \<not> isspace x) (dropWhile isspace s))"
    by simp_all
qed

lemma py_split_ws_two:
  assumes "py_split_ws t = [a, b]"
  shows "\<exists>u w v. t = u @ a @ w @ b @ v \<and> (\<forall>x\<in>set u. isspace x) \<and> (\<forall>x\<in>set v. isspace x)
           \<and> w \<noteq> [] \<and> (\<forall>x\<in>set w. isspace x)"
proof -
  define D where "D = dropWhile isspace t"
  define E where "E = dropWhile (\<lambda>x. \<not> isspace x) D"
  define F where "F = dropWhile isspace E"
  define G where "G = dropWhile (\<lambda>x. \<not> isspace x) F"
  have a: "a = takeWhile (\<lambda>x. \<not> isspace x) D"
    unfolding D_def by (rule py_split_ws_cons(2) [OF assms])
  have second: "py_split_ws E = [b]"
    unfolding E_def D_def by (rule py_split_ws_cons(3) [OF assms, symmetric])
  have F: "F \<noteq> []"
    unfolding F_def by (rule py_split_ws_cons(1) [OF second])
  have b: "b = takeWhile (\<lambda>x. \<not> isspace x) F"
    unfolding F_def by (rule py_split_ws_cons(2) [OF second])
  have "py_split_ws G = []"
    unfolding G_def F_def by (rule py_split_ws_cons(3) [OF second, symmetric])
  then have "dropWhile isspace G = []"
    by (intro py_split_ws_empty)
  then have G: "\<forall>x\<in>set G. isspace x"
    by (simp only: dropWhile_eq_Nil_conv)
  have E: "E \<noteq> []"
  proof
    assume "E = []"
    then have "F = []" by (simp only: F_def dropWhile.simps)
    with F show False by contradiction
  qed
  then have "\<not> \<not> isspace (hd E)"
    unfolding E_def by (rule dropWhile_hd)
  then have "isspace (hd E)"
    by (simp only: not_not)
  with E have w: "takeWhile isspace E \<noteq> []"
    by (rule takeWhile_nonempty)
  have "t = takeWhile isspace t @ D"
    by (simp only: D_def takeWhile_dropWhile_id)
  moreover have "D = a @ E"
    by (simp only: a E_def takeWhile_dropWhile_id)
  moreover have "E = takeWhile isspace E @ F"
    by (simp only: F_def takeWhile_dropWhile_id)
  moreover have "F = b @ G"
    by (simp only: b G_def takeWhile_dropWhile_id)
  ultimately have "t = takeWhile isspace t @ a @ takeWhile isspace E @ b @ G"
    by (metis append.assoc)
  moreover have "\<forall>x\<in>set (takeWhile isspace t). isspace x"
    by (auto dest: set_takeWhileD)
  moreover have "\<forall>x\<in>set (takeWhile isspace E). isspace x"
    by (auto dest: set_takeWhileD)
  ultimately show ?thesis
    using G w by blast
qed

lemma strip_two_pieces:
  assumes "py_split_ws t = [a, b]"
  shows "\<exists>w. w \<noteq> [] \<and> (\<forall>x\<in>set w. isspace x) \<and> strip t = a @ w @ b"
proof -
  obtain u w v where t: "t = u @ a @ w @ b @ v"
    and u: "\<forall>x\<in>set u. isspace x" and v: "\<forall>x\<in>set v. isspace x"
    and w: "w \<noteq> []" "\<forall>x\<in>set w. isspace x"
    using py_split_ws_two [OF assms] by blast
  have a: "a \<noteq> []" "\<forall>x\<in>set a. \<not> isspace x"
    using py_split_ws_pieces [of a t] assms by simp_all
  have b: "b \<noteq> []" "\<forall>x\<in>set b. \<not> isspace x"
    using py_split_ws_pieces [of b t] assms by simp_all
  have "a @ w @ b \<noteq> []" "\<not> isspace (hd (a @ w @ b))" "\<not> isspace (last (a @ w @ b))"
    using a b by simp_all
  then have "strip (u @ (a @ w @ b) @ v) = a @ w @ b"
    using u v by (intro strip_sandwich)
  then have "strip t = a @ w @ b"
    by (simp add: t)
  then show ?thesis
    using w by blast
qed

section \<open>The page range\<close>

lemma pages_copied:
  "fields_dict e ''pages'' = Some p \<Longrightarrow> copy_fields e d ''pages'' = Some (PStr p)"
  by (simp add: copy_fields_lookup allow_list_def)

lemma parse_pages_two:
  "d ''pages'' = Some (PStr p) \<Longrightarrow> py_split [endash] p = [a, b] \<Longrightarrow>
   parse_pages d =
     (case py_int a of
        None \<Rightarrow> Inl (ValueError a)
      | Some i \<Rightarrow>
          (case py_int b of
             None \<Rightarrow> Inl (ValueError b)
           | Some j \<Rightarrow> Inr (d(''start'' \<mapsto> PInt i, ''end'' \<mapsto> PInt j))))"
  by (simp add: parse_pages_def Let_def split: option.splits)

lemma parse_pages_one:
  "d ''pages'' = Some (PStr p) \<Longrightarrow> length (py_split [endash] p) = 1 \<Longrightarrow>
   parse_pages d = Inr (d(''start'' \<mapsto> PStr p))"
  using py_split_one [of endash p] by (simp add: parse_pages_def)

lemma parse_pages_many:
  "d ''pages'' = Some (PStr p) \<Longrightarrow> length (py_split [endash] p) \<noteq> 1 \<Longrightarrow>
   length (py_split [endash] p) \<noteq> 2 \<Longrightarrow>
   parse_pages d = Inl (AssertionError (py ''pages does not have expected format''))"
  by (simp add: parse_pages_def)

lemma Citation_pages_error:
  "parse_pages (copy_fields e [''ENTRYTYPE'' \<mapsto> PStr (entry_type e)]) = Inl err \<Longrightarrow>
   Citation [e] = Inl err"
  by (simp add: Citation_def parse_bibtex_def)

lemma Citation_pages_keeps:
  assumes "Citation [e] = Inr c"
    and "parse_pages (copy_fields e [''ENTRYTYPE'' \<mapsto> PStr (entry_type e)]) = Inr d"
    and "k \<noteq> ''n_authors''" and "k \<noteq> ''author''"
  shows "info_dict c k = d k"
  using assms
  by (auto simp add: Citation_def parse_bibtex_def Let_def split: option.splits sum.splits)

lemma end_not_copied: "copy_fields e [''ENTRYTYPE'' \<mapsto> PStr (entry_type e)] ''end'' = None"
  by (simp add: copy_fields_lookup allow_list_def)

text \<open>
  Claim C6. A \<open>pages\<close> string that gives no valid result makes the conversion fail. The
  number of parts is one more than the number of en-dashes; with three parts or more the
  assertion of line 42 fails; with two parts, \<open>int()\<close> raises \<open>ValueError\<close> on the first part
  that is no integer. Both are what the spec calls \<open>InvalidPagesFormatError\<close>.
\<close>

theorem invalid_pages_rejected:
  assumes "fields_dict e ''pages'' = Some p"
  shows "length (py_split [endash] p) = Suc (count_list p endash)
    \<and> (length (py_split [endash] p) \<noteq> 1 \<and> length (py_split [endash] p) \<noteq> 2 \<longrightarrow>
         Citation [e] = Inl (AssertionError (py ''pages does not have expected format'')))
    \<and> (\<forall>a b. py_split [endash] p = [a, b] \<and> py_int a = None \<longrightarrow>
         Citation [e] = Inl (ValueError a))
    \<and> (\<forall>a b. py_split [endash] p = [a, b] \<and> py_int a \<noteq> None \<and> py_int b = None \<longrightarrow>
         Citation [e] = Inl (ValueError b))"
proof -
  let ?d = "copy_fields e [''ENTRYTYPE'' \<mapsto> PStr (entry_type e)]"
  have pages: "?d ''pages'' = Some (PStr p)"
    using assms by (rule pages_copied)
  have many: "Citation [e] = Inl (AssertionError (py ''pages does not have expected format''))"
    if "length (py_split [endash] p) \<noteq> 1" "length (py_split [endash] p) \<noteq> 2"
    using parse_pages_many [of ?d p, OF pages that] by (rule Citation_pages_error)
  have first: "Citation [e] = Inl (ValueError a)"
    if "py_split [endash] p = [a, b]" "py_int a = None" for a b
    using parse_pages_two [of ?d p a b, OF pages that(1)] that(2) by (intro Citation_pages_error) simp
  have second: "Citation [e] = Inl (ValueError b)"
    if "py_split [endash] p = [a, b]" "py_int a \<noteq> None" "py_int b = None" for a b
    using parse_pages_two [of ?d p a b, OF pages that(1)] that(2,3) by (intro Citation_pages_error) auto
  show ?thesis
    using many first second by (simp add: length_py_split)
qed

text \<open>
  Claim C7. With two parts that \<open>int()\<close> accepts, lines 37 and 38 store both as integers
  under \<open>start\<close> and \<open>end\<close>; with one part, line 40 stores the string as it is under
  \<open>start\<close> and there is no \<open>end\<close>. What the rest of \<open>parse_bibtex\<close> does leaves both keys
  alone, so the object built by \<open>Citation\<close> holds these values.
\<close>

theorem valid_pages_stored:
  assumes "fields_dict e ''pages'' = Some p"
  shows "(\<forall>a b i j. py_split [endash] p = [a, b] \<and> py_int a = Some i \<and> py_int b = Some j \<longrightarrow>
           parse_pages (copy_fields e [''ENTRYTYPE'' \<mapsto> PStr (entry_type e)])
           = Inr ((copy_fields e [''ENTRYTYPE'' \<mapsto> PStr (entry_type e)])
                    (''start'' \<mapsto> PInt i, ''end'' \<mapsto> PInt j)))
    \<and> (length (py_split [endash] p) = 1 \<longrightarrow>
           parse_pages (copy_fields e [''ENTRYTYPE'' \<mapsto> PStr (entry_type e)])
           = Inr ((copy_fields e [''ENTRYTYPE'' \<mapsto> PStr (entry_type e)])(''start'' \<mapsto> PStr p))
           \<and> copy_fields e [''ENTRYTYPE'' \<mapsto> PStr (entry_type e)] ''end'' = None)
    \<and> (\<forall>c d. Citation [e] = Inr c
           \<and> parse_pages (copy_fields e [''ENTRYTYPE'' \<mapsto> PStr (entry_type e)]) = Inr d \<longrightarrow>
           info_dict c ''start'' = d ''start'' \<and> info_dict c ''end'' = d ''end'')"
proof -
  let ?d = "copy_fields e [''ENTRYTYPE'' \<mapsto> PStr (entry_type e)]"
  have pages: "?d ''pages'' = Some (PStr p)"
    using assms by (rule pages_copied)
  have two: "parse_pages ?d = Inr (?d(''start'' \<mapsto> PInt i, ''end'' \<mapsto> PInt j))"
    if "py_split [endash] p = [a, b]" "py_int a = Some i" "py_int b = Some j" for a b i j
    using parse_pages_two [of ?d p a b, OF pages that(1)] that(2,3) by simp
  have one: "parse_pages ?d = Inr (?d(''start'' \<mapsto> PStr p))"
    if "length (py_split [endash] p) = 1"
    using parse_pages_one [of ?d p, OF pages that] .
  have keeps: "info_dict c ''start'' = d ''start'' \<and> info_dict c ''end'' = d ''end''"
    if "Citation [e] = Inr c" "parse_pages ?d = Inr d" for c d
    using Citation_pages_keeps [OF that, of "''start''"]
      Citation_pages_keeps [OF that, of "''end''"] by simp
  show ?thesis
    using two one keeps end_not_copied [of e] by blast
qed

text \<open>
  Three page strings, written here with \<open>-\<close> for the en-dash: \<open>1-2-3\<close>, \<open>iv-2\<close> and \<open>1-x\<close>.
\<close>

theorem invalid_pages_rejected_witness:
  "Citation [\<lparr>entry_type = py ''article'',
              fields_dict = [''pages'' \<mapsto> py ''1'' @ [endash] @ py ''2'' @ [endash] @ py ''3'']\<rparr>]
     = Inl (AssertionError (py ''pages does not have expected format''))
   \<and> Citation [\<lparr>entry_type = py ''article'',
                fields_dict = [''pages'' \<mapsto> py ''iv'' @ [endash] @ py ''2'']\<rparr>]
     = Inl (ValueError (py ''iv''))
   \<and> Citation [\<lparr>entry_type = py ''article'',
                fields_dict = [''pages'' \<mapsto> py ''1'' @ [endash] @ py ''x'']\<rparr>]
     = Inl (ValueError (py ''x''))"
proof -
  let ?e1 = "\<lparr>entry_type = py ''article'',
              fields_dict = [''pages'' \<mapsto> py ''1'' @ [endash] @ py ''2'' @ [endash] @ py ''3'']\<rparr>"
  let ?e2 = "\<lparr>entry_type = py ''article'',
                fields_dict = [''pages'' \<mapsto> py ''iv'' @ [endash] @ py ''2'']\<rparr>"
  let ?e3 = "\<lparr>entry_type = py ''article'',
                fields_dict = [''pages'' \<mapsto> py ''1'' @ [endash] @ py ''x'']\<rparr>"
  have h1: "fields_dict ?e1 ''pages'' = Some (py ''1'' @ [endash] @ py ''2'' @ [endash] @ py ''3'')"
    and h2: "fields_dict ?e2 ''pages'' = Some (py ''iv'' @ [endash] @ py ''2'')"
    and h3: "fields_dict ?e3 ''pages'' = Some (py ''1'' @ [endash] @ py ''x'')"
    by simp_all
  have l1: "length (py_split [endash] (py ''1'' @ [endash] @ py ''2'' @ [endash] @ py ''3'')) \<noteq> 1
      \<and> length (py_split [endash] (py ''1'' @ [endash] @ py ''2'' @ [endash] @ py ''3'')) \<noteq> 2"
    by code_simp
  have l2: "py_split [endash] (py ''iv'' @ [endash] @ py ''2'') = [py ''iv'', py ''2'']
      \<and> py_int (py ''iv'') = None"
    by code_simp
  have l3: "py_split [endash] (py ''1'' @ [endash] @ py ''x'') = [py ''1'', py ''x'']
      \<and> py_int (py ''1'') \<noteq> None \<and> py_int (py ''x'') = None"
    by code_simp
  show ?thesis
    using invalid_pages_rejected [OF h1] invalid_pages_rejected [OF h2]
      invalid_pages_rejected [OF h3] l1 l2 l3
    by blast
qed

text \<open>The page strings \<open>12-20\<close>, written with \<open>-\<close> for the en-dash, and \<open>45\<close>.\<close>

theorem valid_pages_stored_witness:
  "(\<exists>c. Citation [\<lparr>entry_type = py ''article'',
                    fields_dict = [''pages'' \<mapsto> py ''12'' @ [endash] @ py ''20'']\<rparr>] = Inr c
       \<and> info_dict c ''start'' = Some (PInt 12) \<and> info_dict c ''end'' = Some (PInt 20))
   \<and> (\<exists>c. Citation [\<lparr>entry_type = py ''article'',
                      fields_dict = [''pages'' \<mapsto> py ''45'']\<rparr>] = Inr c
       \<and> info_dict c ''start'' = Some (PStr (py ''45'')) \<and> info_dict c ''end'' = None)"
proof -
  let ?e1 = "\<lparr>entry_type = py ''article'',
                    fields_dict = [''pages'' \<mapsto> py ''12'' @ [endash] @ py ''20'']\<rparr>"
  let ?e2 = "\<lparr>entry_type = py ''article'', fields_dict = [''pages'' \<mapsto> py ''45'']\<rparr>"
  let ?d1 = "copy_fields ?e1 [''ENTRYTYPE'' \<mapsto> PStr (entry_type ?e1)]"
  let ?d2 = "copy_fields ?e2 [''ENTRYTYPE'' \<mapsto> PStr (entry_type ?e2)]"
  have h1: "fields_dict ?e1 ''pages'' = Some (py ''12'' @ [endash] @ py ''20'')"
    and h2: "fields_dict ?e2 ''pages'' = Some (py ''45'')"
    by simp_all
  have l1: "py_split [endash] (py ''12'' @ [endash] @ py ''20'') = [py ''12'', py ''20'']
      \<and> py_int (py ''12'') = Some 12 \<and> py_int (py ''20'') = Some 20"
    by code_simp
  have l2: "length (py_split [endash] (py ''45'')) = 1"
    by code_simp
  note t1 = valid_pages_stored [OF h1]
  note t2 = valid_pages_stored [OF h2]
  have p1: "parse_pages ?d1 = Inr (?d1(''start'' \<mapsto> PInt 12, ''end'' \<mapsto> PInt 20))"
    using t1 l1 by blast
  have p2: "parse_pages ?d2 = Inr (?d2(''start'' \<mapsto> PStr (py ''45'')))"
    and n2: "?d2 ''end'' = None"
    using t2 l2 by blast+
  obtain c1 where c1: "Citation [?e1] = Inr c1"
    using p1 by (simp add: Citation_def parse_bibtex_def)
  obtain c2 where c2: "Citation [?e2] = Inr c2"
    using p2 by (simp add: Citation_def parse_bibtex_def)
  have k1: "info_dict c1 ''start'' = (?d1(''start'' \<mapsto> PInt 12, ''end'' \<mapsto> PInt 20)) ''start''
      \<and> info_dict c1 ''end'' = (?d1(''start'' \<mapsto> PInt 12, ''end'' \<mapsto> PInt 20)) ''end''"
    using t1 c1 p1 by blast
  have k2: "info_dict c2 ''start'' = (?d2(''start'' \<mapsto> PStr (py ''45''))) ''start''
      \<and> info_dict c2 ''end'' = (?d2(''start'' \<mapsto> PStr (py ''45''))) ''end''"
    using t2 c2 p2 by blast
  have "info_dict c1 ''start'' = Some (PInt 12) \<and> info_dict c1 ''end'' = Some (PInt 20)"
    using k1 by simp
  moreover have "info_dict c2 ''start'' = Some (PStr (py ''45'')) \<and> info_dict c2 ''end'' = None"
    using k2 n2 by simp
  ultimately show ?thesis
    using c1 c2 by blast
qed

section \<open>Author names\<close>

lemma parse_authors_Inr:
  "parse_authors ts = Inr as \<Longrightarrow> list_all2 (\<lambda>t a. parse_author t = Inr a) ts as"
  by (induction ts arbitrary: as) (auto split: sum.splits)

lemma parse_authors_Inl:
  "parse_authors ts = Inl e \<Longrightarrow> \<exists>t\<in>set ts. parse_author t = Inl e"
  by (induction ts) (auto split: sum.splits)

lemma count_many_not_two: "1 < count_list t c \<Longrightarrow> length (py_split [c] t) \<noteq> 2"
  by (simp add: length_py_split)

lemma parse_author_one_comma:
  assumes "comma \<in> set t" and "count_list t comma = 1"
  shows "parse_author t =
     Inr \<lparr>full_name = strip t,
          first_name = strip (tl (dropWhile (\<lambda>x. x \<noteq> comma) t)),
          last_name = strip (takeWhile (\<lambda>x. x \<noteq> comma) t),
          orcid = None\<rparr>"
  using assms(1) py_split_two [OF assms(2)] by (simp add: parse_author_def)

lemma parse_author_many_commas:
  assumes "1 < count_list t comma"
  shows "parse_author t = Inl (AssertionError (py ''More than 1 comma (,) in '' @ t))"
proof -
  have "comma \<in> set t"
    using assms count_list_0_iff [of t comma] by (cases "comma \<in> set t") simp_all
  then show ?thesis
    using count_many_not_two [OF assms] by (simp add: parse_author_def)
qed

lemma parse_author_two_names:
  assumes "comma \<notin> set t" and "py_split_ws t = [a, b]"
  shows "parse_author t =
     Inr \<lparr>full_name = strip t, first_name = a, last_name = b, orcid = None\<rparr>"
proof -
  have "strip a = a" "strip b = b"
    using strip_piece [of a t] strip_piece [of b t] assms(2) by simp_all
  then show ?thesis
    using assms by (simp add: parse_author_def)
qed

lemma parse_author_other_names:
  "comma \<notin> set t \<Longrightarrow> length (py_split_ws t) \<noteq> 2 \<Longrightarrow>
   parse_author t = Inl (AssertionError (py ''More than two names '' @ t))"
  by (simp add: parse_author_def)

lemma Citation_authors:
  assumes "fields_dict e ''author'' = Some s" and "Citation [e] = Inr c"
  shows "\<exists>as. author_dict c = Some as
           \<and> parse_authors (py_split (py '' and '') s) = Inr as
           \<and> info_dict c ''n_authors'' = Some (PInt (int (length as)))"
proof -
  from assms obtain d as where
    as: "parse_authors (py_split (py '' and '') s) = Inr as"
    and c: "c = \<lparr>info_dict = d(''n_authors'' \<mapsto>
                       PInt (int (length (py_split (py '' and '') s)))),
                author_dict = Some as, bibtex_provided = True, repo_provided = False\<rparr>"
    by (auto simp add: Citation_def parse_bibtex_def Let_def split: sum.splits)
  have "length (py_split (py '' and '') s) = length as"
    using parse_authors_Inr [OF as] by (rule list_all2_lengthD)
  then show ?thesis
    using as by (simp add: c)
qed

text \<open>
  Claim C5. The author string is split on \<open>' and '\<close> and each token is parsed on its own,
  the first failure ending the loop. A token with exactly one comma gives the trimmed
  text before the comma as \<open>last_name\<close> and the trimmed text after it as \<open>first_name\<close>;
  with more than one comma the assertion of line 52 fails. A token without a comma that
  splits on whitespace into exactly two pieces gives the first as \<open>first_name\<close> and the
  second as \<open>last_name\<close>; any other number of pieces fails the assertion of line 57.
  The failed assertions, whose message names the token, are the spec's
  \<open>UnsupportedAuthorFormatError\<close>. The object built by \<open>Citation\<close> holds the parsed names and
  their number.
\<close>

theorem author_tokens:
  "(comma \<in> set t \<and> count_list t comma = 1 \<longrightarrow>
      parse_author t =
        Inr \<lparr>full_name = strip t,
             first_name = strip (tl (dropWhile (\<lambda>x. x \<noteq> comma) t)),
             last_name = strip (takeWhile (\<lambda>x. x \<noteq> comma) t),
             orcid = None\<rparr>)
   \<and> (1 < count_list t comma \<longrightarrow>
        parse_author t = Inl (AssertionError (py ''More than 1 comma (,) in '' @ t)))
   \<and> (\<forall>a b. comma \<notin> set t \<and> py_split_ws t = [a, b] \<longrightarrow>
        parse_author t =
          Inr \<lparr>full_name = strip t, first_name = a, last_name = b, orcid = None\<rparr>)
   \<and> (comma \<notin> set t \<and> length (py_split_ws t) \<noteq> 2 \<longrightarrow>
        parse_author t = Inl (AssertionError (py ''More than two names '' @ t)))
   \<and> (\<forall>as. parse_authors (py_split (py '' and '') s) = Inr as \<longrightarrow>
        list_all2 (\<lambda>t a. parse_author t = Inr a) (py_split (py '' and '') s) as)
   \<and> (\<forall>err. parse_authors (py_split (py '' and '') s) = Inl err \<longrightarrow>
        (\<exists>t\<in>set (py_split (py '' and '') s). parse_author t = Inl err))
   \<and> (\<forall>c. fields_dict e ''author'' = Some s \<and> Citation [e] = Inr c \<longrightarrow>
        (\<exists>as. author_dict c = Some as
           \<and> parse_authors (py_split (py '' and '') s) = Inr as
           \<and> info_dict c ''n_authors'' = Some (PInt (int (length as)))))"
  using parse_author_one_comma [of t] parse_author_many_commas [of t]
    parse_author_two_names [of t] parse_author_other_names [of t]
    parse_authors_Inr [of "py_split (py '' and '') s"]
    parse_authors_Inl [of "py_split (py '' and '') s"]
    Citation_authors [of e s]
  by blast

text \<open>
  Claim C8, as amended. For a token without a comma that parses, the trimmed token is
  \<open>first_name\<close>, then the non-empty run of whitespace that separated the two pieces, then
  \<open>last_name\<close>; joining the two names with one space gives back the trimmed token exactly
  when that run is one space.
\<close>

theorem rejoin_with_separator:
  assumes "comma \<notin> set t" and "parse_author t = Inr a"
  shows "\<exists>w. w \<noteq> [] \<and> (\<forall>x\<in>set w. isspace x)
           \<and> strip t = first_name a @ w @ last_name a
           \<and> (first_name a @ py '' '' @ last_name a = strip t \<longleftrightarrow> w = py '' '')"
proof -
  have len: "length (py_split_ws t) = 2"
    using assms by (auto simp add: parse_author_def split: if_splits)
  then obtain x y where xy: "py_split_ws t = [x, y]"
    by (cases "py_split_ws t" rule: list.exhaust[case_product list.exhaust])
       (auto simp add: length_Suc_conv)
  have a: "first_name a = x" "last_name a = y"
    using parse_author_two_names [OF assms(1) xy] assms(2) by auto
  obtain w where w: "w \<noteq> []" "\<forall>x\<in>set w. isspace x" "strip t = x @ w @ y"
    using strip_two_pieces [OF xy] by blast
  have "(x @ py '' '' @ y = strip t) \<longleftrightarrow> (w = py '' '')"
    by (auto simp add: w(3))
  then show ?thesis
    using w a by blast
qed

text \<open>Tokens of each of the four kinds, two author strings and an entry.\<close>

theorem author_tokens_witness:
  "parse_author (py ''Doe, Jane'') =
     Inr \<lparr>full_name = py ''Doe, Jane'', first_name = py ''Jane'', last_name = py ''Doe'',
          orcid = None\<rparr>
   \<and> parse_author (py ''Doe, Jane, Jr'') =
       Inl (AssertionError (py ''More than 1 comma (,) in '' @ py ''Doe, Jane, Jr''))
   \<and> parse_author (py ''Jane Doe'') =
       Inr \<lparr>full_name = py ''Jane Doe'', first_name = py ''Jane'', last_name = py ''Doe'',
            orcid = None\<rparr>
   \<and> parse_author (py ''Jane Q Doe'') =
       Inl (AssertionError (py ''More than two names '' @ py ''Jane Q Doe''))
   \<and> list_all2 (\<lambda>t a. parse_author t = Inr a)
         (py_split (py '' and '') (py ''Doe, Jane and John Smith''))
         [\<lparr>full_name = py ''Doe, Jane'', first_name = py ''Jane'', last_name = py ''Doe'',
            orcid = None\<rparr>,
          \<lparr>full_name = py ''John Smith'', first_name = py ''John'', last_name = py ''Smith'',
            orcid = None\<rparr>]
   \<and> (\<exists>t\<in>set (py_split (py '' and '') (py ''Jane Doe and Jane Q Doe'')).
         parse_author t = Inl (AssertionError (py ''More than two names '' @ py ''Jane Q Doe'')))
   \<and> (\<exists>c as. Citation [\<lparr>entry_type = py ''article'',
                          fields_dict = [''author'' \<mapsto> py ''Doe, Jane and John Smith'']\<rparr>]
                = Inr c
         \<and> author_dict c = Some as \<and> info_dict c ''n_authors'' = Some (PInt 2))"
proof -
  let ?s = "py ''Doe, Jane and John Smith''"
  let ?s' = "py ''Jane Doe and Jane Q Doe''"
  let ?e = "\<lparr>entry_type = py ''article'',
             fields_dict = [''author'' \<mapsto> py ''Doe, Jane and John Smith'']\<rparr>"
  let ?jane = "\<lparr>full_name = py ''Doe, Jane'', first_name = py ''Jane'',
                 last_name = py ''Doe'', orcid = None\<rparr>"
  let ?john = "\<lparr>full_name = py ''John Smith'', first_name = py ''John'',
                 last_name = py ''Smith'', orcid = None\<rparr>"
  have h1: "comma \<in> set (py ''Doe, Jane'') \<and> count_list (py ''Doe, Jane'') comma = 1"
    by code_simp
  have v1: "strip (py ''Doe, Jane'') = py ''Doe, Jane''"
    "strip (tl (dropWhile (\<lambda>x. x \<noteq> comma) (py ''Doe, Jane''))) = py ''Jane''"
    "strip (takeWhile (\<lambda>x. x \<noteq> comma) (py ''Doe, Jane'')) = py ''Doe''"
    by code_simp+
  have c1: "parse_author (py ''Doe, Jane'') = Inr ?jane"
    using author_tokens [of "py ''Doe, Jane''" ?s ?e] h1 by (simp only: v1)
  have h2: "1 < count_list (py ''Doe, Jane, Jr'') comma"
    by code_simp
  have c2: "parse_author (py ''Doe, Jane, Jr'') =
       Inl (AssertionError (py ''More than 1 comma (,) in '' @ py ''Doe, Jane, Jr''))"
    using author_tokens [of "py ''Doe, Jane, Jr''" ?s ?e] h2 by blast
  have h3: "comma \<notin> set (py ''Jane Doe'') \<and> py_split_ws (py ''Jane Doe'') = [py ''Jane'', py ''Doe'']"
    by code_simp
  have v3: "strip (py ''Jane Doe'') = py ''Jane Doe''"
    by code_simp
  have "parse_author (py ''Jane Doe'') =
       Inr \<lparr>full_name = strip (py ''Jane Doe''), first_name = py ''Jane'',
            last_name = py ''Doe'', orcid = None\<rparr>"
    using author_tokens [of "py ''Jane Doe''" ?s ?e] h3 by blast
  then have c3: "parse_author (py ''Jane Doe'') =
       Inr \<lparr>full_name = py ''Jane Doe'', first_name = py ''Jane'', last_name = py ''Doe'',
            orcid = None\<rparr>"
    by (simp only: v3)
  have h4: "comma \<notin> set (py ''Jane Q Doe'') \<and> length (py_split_ws (py ''Jane Q Doe'')) \<noteq> 2"
    by code_simp
  have c4: "parse_author (py ''Jane Q Doe'') =
       Inl (AssertionError (py ''More than two names '' @ py ''Jane Q Doe''))"
    using author_tokens [of "py ''Jane Q Doe''" ?s ?e] h4 by blast
  have h5: "parse_authors (py_split (py '' and '') ?s) = Inr [?jane, ?john]"
    by code_simp
  have c5: "list_all2 (\<lambda>t a. parse_author t = Inr a) (py_split (py '' and '') ?s) [?jane, ?john]"
    using author_tokens [of "py ''Jane Doe''" ?s ?e] h5 by blast
  have h6: "parse_authors (py_split (py '' and '') ?s') =
       Inl (AssertionError (py ''More than two names '' @ py ''Jane Q Doe''))"
    by code_simp
  have c6: "\<exists>t\<in>set (py_split (py '' and '') ?s').
         parse_author t = Inl (AssertionError (py ''More than two names '' @ py ''Jane Q Doe''))"
    using author_tokens [of "py ''Jane Doe''" ?s' ?e] h6 by blast
  have h7: "fields_dict ?e ''author'' = Some ?s"
    by simp
  obtain c where c: "Citation [?e] = Inr c"
    using h5 by (simp add: Citation_def parse_bibtex_def parse_pages_def copy_fields_lookup)
  obtain as where as: "author_dict c = Some as"
    "parse_authors (py_split (py '' and '') ?s) = Inr as"
    "info_dict c ''n_authors'' = Some (PInt (int (length as)))"
    using author_tokens [of "py ''Jane Doe''" ?s ?e] h7 c by blast
  have "as = [?jane, ?john]"
    using as(2) h5 by simp
  then have c7: "\<exists>c as. Citation [?e] = Inr c \<and> author_dict c = Some as
      \<and> info_dict c ''n_authors'' = Some (PInt 2)"
    using c as(1,3) by auto
  show ?thesis
    using c1 c2 c3 c4 c5 c6 c7 by blast
qed

text \<open>
  The token \<open>Jane\<close>, two spaces, \<open>Doe\<close> parses, and joining the names with one space does
  not give the trimmed token back.
\<close>

theorem rejoin_counterexample:
  "comma \<notin> set (py ''Jane  Doe'')
   \<and> parse_author (py ''Jane  Doe'') =
       Inr \<lparr>full_name = py ''Jane  Doe'', first_name = py ''Jane'', last_name = py ''Doe'',
            orcid = None\<rparr>
   \<and> py ''Jane'' @ py '' '' @ py ''Doe'' \<noteq> strip (py ''Jane  Doe'')"
  by code_simp

text \<open>The token \<open>Jane Doe\<close>.\<close>

theorem rejoin_with_separator_witness:
  "py ''Jane'' @ py '' '' @ py ''Doe'' = strip (py ''Jane Doe'')"
proof -
  let ?a = "\<lparr>full_name = py ''Jane Doe'', first_name = py ''Jane'', last_name = py ''Doe'',
             orcid = None\<rparr>"
  have h1: "comma \<notin> set (py ''Jane Doe'')"
    by code_simp
  have h2: "parse_author (py ''Jane Doe'') = Inr ?a"
    by code_simp
  have v: "strip (py ''Jane Doe'') = py ''Jane'' @ py '' '' @ py ''Doe''"
    by code_simp
  obtain w where w: "strip (py ''Jane Doe'') = first_name ?a @ w @ last_name ?a"
    and iff: "first_name ?a @ py '' '' @ last_name ?a = strip (py ''Jane Doe'') \<longleftrightarrow> w = py '' ''"
    using rejoin_with_separator [OF h1 h2] by blast
  have "w = py '' ''"
    using w v by simp
  then show ?thesis
    using iff by simp
qed

section \<open>A second call of prep\_info\_for\_export\<close>

text \<open>
  The second call reads the clock again and builds the date again. It changes nothing
  when the model has a \<open>year\<close>, or when both calls read the same calendar year: the clock
  enters the built date through the year alone.
\<close>

lemma prep_date_again:
  assumes "prep_date dt1 d = Inr d1"
    and "e ''year'' = d ''year''" and "e ''month'' = d ''month''" and "e ''day'' = d ''day''"
    and "e ''date-released'' = d1 ''date-released''"
    and "d ''year'' \<noteq> None \<or> dt_year dt2 = dt_year dt1"
  shows "prep_date dt2 e = Inr e"
proof -
  let ?built = "\<lambda>dt. py_str (case d ''year'' of Some y \<Rightarrow> y | None \<Rightarrow> PInt (dt_year dt))
      @ py ''-'' @ zfill 2 (py_str (case d ''month'' of Some m \<Rightarrow> m | None \<Rightarrow> PInt 1))
      @ py ''-'' @ zfill 2 (py_str (case d ''day'' of Some v \<Rightarrow> v | None \<Rightarrow> PInt 1))"
  have same: "?built dt2 = ?built dt1"
    using assms(6) by (cases "d ''year''") simp_all
  have "d1 = d(''date-released'' \<mapsto> PStr (?built dt1))"
    using assms(1) by (simp add: prep_date_eq)
  then have stored: "e ''date-released'' = Some (PStr (?built dt1))"
    using assms(5) by simp
  have "prep_date dt2 e = Inr (e(''date-released'' \<mapsto> PStr (?built dt2)))"
    by (simp only: prep_date_eq assms(2,3,4))
  also have "e(''date-released'' \<mapsto> PStr (?built dt2)) = e"
    using stored by (simp only: same fun_upd_idem_iff)
  finally show ?thesis .
qed

lemma prep_type_again:
  assumes "prep_type d = Inr d'"
    and "e ''ENTRYTYPE'' = d ''ENTRYTYPE''" and "e ''cff_type'' = d' ''cff_type''"
  shows "prep_type e = Inr e"
proof (cases "d ''ENTRYTYPE''")
  case None
  then show ?thesis using assms(2) by (simp add: prep_type_def)
next
  case (Some v)
  then obtain t c where v: "v = PStr t" and c: "map_of type_mapping_bib_to_cff t = Some c"
    and d': "d' = d(''cff_type'' \<mapsto> PStr c)"
    using assms(1) by (auto simp add: prep_type_def split: pyval.splits option.splits)
  have "e ''cff_type'' = Some (PStr c)"
    using assms(3) d' by simp
  then have "e(''cff_type'' \<mapsto> PStr c) = e"
    by (simp only: fun_upd_idem_iff)
  then show ?thesis
    using assms(2) Some v c by (simp add: prep_type_def)
qed

lemma prep_journal_again:
  "prep_journal (prep_conference (prep_journal d)) = prep_conference (prep_journal d)"
proof -
  have j: "prep_conference (prep_journal d) ''journal'' = prep_journal d ''journal''"
    and s: "prep_conference (prep_journal d) ''series'' = prep_journal d ''series''"
    by (simp_all add: prep_conference_keeps)
  have "prep_journal d ''journal'' = None \<Longrightarrow> prep_journal d ''series'' = None"
    by (auto simp add: prep_journal_def split: option.splits if_splits)
  then show ?thesis
    by (cases "prep_journal d ''journal''") (simp_all add: prep_journal_def [of "prep_conference (prep_journal d)"] j s)
qed

lemma prep_conference_again: "prep_conference (prep_conference d) = prep_conference d"
  by (auto simp add: prep_conference_def split: option.splits)

lemma prep_info_for_export_again:
  assumes "prep_info_for_export dt1 self = Inr self1"
    and "info_dict self ''year'' \<noteq> None \<or> dt_year dt2 = dt_year dt1"
  shows "prep_info_for_export dt2 self1 = Inr self1"
proof -
  obtain d1 where d1: "prep_date dt1 (info_dict self) = Inr d1"
    using prep_date_total by blast
  from assms(1) d1 obtain d2 where provided: "bibtex_provided self"
    and d2: "prep_type d1 = Inr d2"
    and self1: "self1 = self\<lparr>info_dict := prep_conference (prep_journal d2)\<rparr>"
    by (auto simp add: prep_info_for_export_def split: if_splits sum.splits)
  let ?d3 = "prep_conference (prep_journal d2)"
  have from_d: "?d3 k = info_dict self k"
    if "k \<notin> {''date-released'', ''cff_type'', ''journal'', ''conference''}" for k
    using prep_info_for_export_keeps(2) [OF assms(1) that] by (simp add: self1)
  have released: "?d3 ''date-released'' = d1 ''date-released''"
    using prep_type_keeps [OF d2, of "''date-released''"]
    by (simp add: prep_conference_keeps prep_journal_keeps)
  have date: "prep_date dt2 ?d3 = Inr ?d3"
    using d1 from_d [of "''year''"] from_d [of "''month''"] from_d [of "''day''"] released assms(2)
    by (intro prep_date_again [of dt1 "info_dict self" d1]) simp_all
  have tag: "?d3 ''ENTRYTYPE'' = d1 ''ENTRYTYPE''"
    using from_d [of "''ENTRYTYPE''"] prep_date_keeps [OF _ d1, of "''ENTRYTYPE''"] by simp
  have cff: "?d3 ''cff_type'' = d2 ''cff_type''"
    by (simp add: prep_conference_keeps prep_journal_keeps)
  have type: "prep_type ?d3 = Inr ?d3"
    using d2 tag cff by (rule prep_type_again)
  have rest: "prep_conference (prep_journal ?d3) = ?d3"
    by (simp only: prep_journal_again prep_conference_again)
  show ?thesis
    using provided by (simp add: prep_info_for_export_def self1 date type rest)
qed

end
